theory Spec2Isabelle
  imports Complex_Main
begin

section \<open>The dipole simulator's controller (\<^verbatim>\<open>src/dipole_sim/app.py\<close>)\<close>

text \<open>
  The class \<^verbatim>\<open>App\<close> owns three mutable dictionaries: \<^verbatim>\<open>_state\<close> (the interaction
  state), \<^verbatim>\<open>_widget\<close> (the controls) and \<^verbatim>\<open>_markers\<close> (the glyph handles). Its handlers
  mutate them in place and call helpers of the sibling modules \<^verbatim>\<open>callbacks\<close>,
  \<^verbatim>\<open>dipole\<close>, \<^verbatim>\<open>slice\<close>, \<^verbatim>\<open>evoked_field\<close> and \<^verbatim>\<open>cursor\<close>, which receive the same
  dictionaries by reference. The embedding passes the three dictionaries explicitly, as
  one record, and takes the helpers of the sibling modules as a parameter: each is a
  function from the dictionaries it receives to their contents when it returns. Every
  such call made by \<^verbatim>\<open>app.py\<close> is appended to a log, with the contents of
  \<^verbatim>\<open>self._state\<close> at the moment of the call.

  A Python float is an IEEE 754 double: the model keeps its exact value, a real, and
  rounds every literal and every product to the nearest double (\<open>binary64\<close> below).
  Helpers are taken to return normally.
\<close>

subsection \<open>Python floats\<close>

text \<open>
  Rounding a real to the nearest double, ties to the even mantissa. A positive real is
  brought to \<open>m * 2 ^ e\<close> with \<open>2 ^ 52 \<le> m < 2 ^ 53\<close> (or to the least exponent
  \<open>- 1074\<close>, where doubles are subnormal) and \<open>m\<close> is rounded to an integer.
  Overflow to infinity (beyond \<open>2 ^ 1024\<close>) is not modelled.
\<close>

function scale_up :: "real \<Rightarrow> int \<Rightarrow> real \<times> int" where
  "scale_up x e = (if 2 ^ 53 \<le> x \<and> e < 971 then scale_up (x / 2) (e + 1) else (x, e))"
  by pat_completeness auto
termination
  by (relation "measure (\<lambda>(x, e). nat (971 - e))") auto

function scale_down :: "real \<Rightarrow> int \<Rightarrow> real \<times> int" where
  "scale_down x e = (if x < 2 ^ 52 \<and> - 1074 < e then scale_down (2 * x) (e - 1) else (x, e))"
  by pat_completeness auto
termination
  by (relation "measure (\<lambda>(x, e). nat (e + 1074))") auto

declare scale_up.simps [simp del] scale_down.simps [simp del]

definition round_half_even :: "real \<Rightarrow> int" where
  "round_half_even y =
    (let f = \<lfloor>y\<rfloor>; r = y - of_int f
     in if r < 1 / 2 then f else if 1 / 2 < r then f + 1 else if even f then f else f + 1)"

definition pow2 :: "int \<Rightarrow> real" where
  "pow2 e = (if 0 \<le> e then 2 ^ nat e else 1 / 2 ^ nat (- e))"

definition binary64_pos :: "real \<Rightarrow> real" where
  "binary64_pos x =
    (case scale_up x 0 of (y, e) \<Rightarrow>
       case scale_down y e of (m, e') \<Rightarrow> of_int (round_half_even m) * pow2 e')"

definition binary64 :: "real \<Rightarrow> real" where
  "binary64 x = (if x = 0 then 0 else if 0 < x then binary64_pos x else - binary64_pos (- x))"

text \<open>
  The literals \<^verbatim>\<open>1e-9\<close> and \<^verbatim>\<open>1e9\<close>, and the product \<^verbatim>\<open>a * b\<close> of two floats.
\<close>

definition lit_1e_9 :: real where
  "lit_1e_9 = binary64 (1 / 10 ^ 9)"

definition lit_1e9 :: real where
  "lit_1e9 = binary64 (10 ^ 9)"

definition float_mul :: "real \<Rightarrow> real \<Rightarrow> real" where
  "float_mul a b = binary64 (a * b)"

subsection \<open>Dictionaries keyed by \<^verbatim>\<open>'x'\<close>, \<^verbatim>\<open>'y'\<close>, \<^verbatim>\<open>'z'\<close>\<close>

datatype axis = X_axis | Y_axis | Z_axis

record 'a per_axis =
  at_x :: 'a
  at_y :: 'a
  at_z :: 'a

text \<open>\<^verbatim>\<open>d[axis]\<close> and \<^verbatim>\<open>d[axis] = v\<close>.\<close>

fun item :: "axis \<Rightarrow> 'a per_axis \<Rightarrow> 'a" where
  "item X_axis d = at_x d"
| "item Y_axis d = at_y d"
| "item Z_axis d = at_z d"

fun set_item :: "axis \<Rightarrow> 'a \<Rightarrow> 'a per_axis \<Rightarrow> 'a per_axis" where
  "set_item X_axis v d = d\<lparr>at_x := v\<rparr>"
| "set_item Y_axis v d = d\<lparr>at_y := v\<rparr>"
| "set_item Z_axis v d = d\<lparr>at_z := v\<rparr>"

subsection \<open>\<^verbatim>\<open>self._state\<close>\<close>

text \<open>
  \<^verbatim>\<open>state['mode']\<close> is a string; \<^verbatim>\<open>app.py\<close> writes only the three values below
  (\<^verbatim>\<open>_init_state\<close>, \<^verbatim>\<open>_set_view_mode\<close>) and dispatches on exactly these.
\<close>

datatype mode = slice_browser | set_dipole_pos | set_dipole_ori

record coord =
  val :: real
  vmin :: real
  vmax :: real

record label_text =
  label_x :: string
  label_y :: string
  label_z :: string
  topomap_mag :: string
  topomap_grad :: string
  topomap_eeg :: string

record interaction_state =
  slice_coord :: "coord per_axis"
  crosshair_pos :: "real per_axis"
  dipole_pos :: "real option per_axis"
  dipole_ori :: "real option per_axis"
  dipole_amplitude :: real
  label_text :: label_text
  dipole_arrows :: "nat list"
  mode :: mode
  updating :: bool

text \<open>
  \<^verbatim>\<open>App._init_state\<close> (lines 88-107). The three slice labels are f-strings over
  \<^verbatim>\<open>round(0)\<close>, which prints as \<^verbatim>\<open>0\<close>. The amplitude is the literal \<^verbatim>\<open>50e-9\<close>.
\<close>

definition init_state :: interaction_state where
  "init_state =
    \<lparr>slice_coord =
       \<lparr>at_x = \<lparr>val = 0, vmin = - 60, vmax = 60\<rparr>,
        at_y = \<lparr>val = 0, vmin = - 70, vmax = 70\<rparr>,
        at_z = \<lparr>val = 0, vmin = - 20, vmax = 60\<rparr>\<rparr>,
     crosshair_pos = \<lparr>at_x = 0, at_y = 0, at_z = 0\<rparr>,
     dipole_pos = \<lparr>at_x = None, at_y = None, at_z = None\<rparr>,
     dipole_ori = \<lparr>at_x = None, at_y = None, at_z = None\<rparr>,
     dipole_amplitude = binary64 (50 / 10 ^ 9),
     label_text =
       \<lparr>label_x = ''sagittal (x = 0 mm)'',
        label_y = ''coronal (y = 0 mm)'',
        label_z = ''axial (z = 0 mm)'',
        topomap_mag = ''Evoked magnetometer field'',
        topomap_grad = ''Evoked gradiometer field'',
        topomap_eeg = ''Evoked EEG field''\<rparr>,
     dipole_arrows = [],
     mode = slice_browser,
     updating = False\<rparr>"

subsection \<open>\<^verbatim>\<open>self._widget\<close> and \<^verbatim>\<open>self._markers\<close>\<close>

text \<open>
  Of the widget dictionary the record keeps what \<^verbatim>\<open>app.py\<close> itself reads or writes in a
  handler: the three slice figures (as object identities), the three value labels, the
  amplitude slider and the output widget that captures what the helpers print.
\<close>

record widget =
  fig :: "nat per_axis"
  label_dipole_pos :: string
  label_dipole_ori :: string
  label_updating :: string
  amplitude_slider_value :: int
  amplitude_slider_disabled :: bool
  output_widget :: "string list"

record markers =
  markers_dipole_pos :: "nat option per_axis"
  markers_dipole_ori :: "nat option per_axis"

text \<open>Python's \<^verbatim>\<open>int(r)\<close> on a float truncates towards zero.\<close>

definition py_int :: "real \<Rightarrow> int" where
  "py_int r = (if 0 \<le> r then \<lfloor>r\<rfloor> else \<lceil>r\<rceil>)"

text \<open>
  The label texts of \<^verbatim>\<open>_toggle_updating_state\<close>. In the literal of line 187 the word
  \<^verbatim>\<open>Updating\<close> is followed by the two code points U+00A0 (no-break space) and U+2026
  (horizontal ellipsis), here their UTF-8 bytes \<^verbatim>\<open>C2 A0\<close> and \<^verbatim>\<open>E2 80 A6\<close>.
\<close>

definition updating_text :: string where
  "updating_text = ''Updating'' @ [CHR 0xC2, CHR 0xA0, CHR 0xE2, CHR 0x80, CHR 0xA6]"

definition ready_text :: string where
  "ready_text = ''Ready.''"

text \<open>
  \<^verbatim>\<open>App._init_widget\<close> (lines 112-169), the part kept in the record. The three figures
  made by \<^verbatim>\<open>_create_slice_fig\<close> are three distinct objects.
\<close>

definition init_widget :: "interaction_state \<Rightarrow> widget" where
  "init_widget s =
    \<lparr>fig = \<lparr>at_x = 0, at_y = 1, at_z = 2\<rparr>,
     label_dipole_pos = ''Not set'',
     label_dipole_ori = ''Not set'',
     label_updating = ready_text,
     amplitude_slider_value = py_int (float_mul (dipole_amplitude s) lit_1e9),
     amplitude_slider_disabled = False,
     output_widget = []\<rparr>"

text \<open>\<^verbatim>\<open>App._init_markers\<close> (lines 171-175).\<close>

definition init_markers :: markers where
  "init_markers =
    \<lparr>markers_dipole_pos = \<lparr>at_x = None, at_y = None, at_z = None\<rparr>,
     markers_dipole_ori = \<lparr>at_x = None, at_y = None, at_z = None\<rparr>\<rparr>"

subsection \<open>The controller object and the log of helper calls\<close>

datatype call =
    HandleClickInSliceBrowserMode
  | HandleClickInSetDipolePosMode
  | HandleClickInSetDipoleOriMode
  | PlotDipolePosMarker
  | PlotDipoleOriMarker
  | DrawDipoleArrows
  | RemoveDipoleArrows
  | RemoveDipolePosMarkers
  | RemoveDipoleOriMarkers
  | PlotEvoked
  | ResetTopomaps
  | EnableCrosshairCursor
  | PlotSlice axis

record app =
  state :: interaction_state
  widget :: widget
  markers :: markers
  exact_solution :: bool
  calls :: "(call \<times> interaction_state) list"

text \<open>
  \<^verbatim>\<open>App.__init__\<close>, lines 56-59: the three dictionaries as first built, before the
  constructor's own rendering calls.
\<close>

definition init_app :: app where
  "init_app =
    \<lparr>state = init_state, widget = init_widget init_state, markers = init_markers,
     exact_solution = False, calls = []\<rparr>"

text \<open>
  The helpers imported in lines 10-21, as a parameter. Each takes the arguments of its
  call site that vary with the interaction and the mutable dictionaries it is handed,
  and returns those dictionaries as it leaves them.
\<close>

type_synonym wms = "widget \<times> markers \<times> interaction_state"
type_synonym ws = "widget \<times> interaction_state"

record collab =
  get_axis_names_from_slice :: "axis \<Rightarrow> axis \<times> axis"
  handle_click_in_slice_browser_mode :: "real \<Rightarrow> real \<Rightarrow> axis \<Rightarrow> axis \<Rightarrow> wms \<Rightarrow> wms"
  handle_click_in_set_dipole_pos_mode ::
    "axis \<Rightarrow> axis \<Rightarrow> axis \<Rightarrow> real \<Rightarrow> real \<Rightarrow> ws \<Rightarrow> ws"
  handle_click_in_set_dipole_ori_mode ::
    "axis \<Rightarrow> axis \<Rightarrow> axis \<Rightarrow> real \<Rightarrow> real \<Rightarrow> ws \<Rightarrow> ws"
  plot_dipole_pos_marker :: "wms \<Rightarrow> wms"
  plot_dipole_ori_marker :: "wms \<Rightarrow> wms"
  draw_dipole_arrows :: "ws \<Rightarrow> ws"
  remove_dipole_arrows :: "widget \<Rightarrow> widget"
  remove_dipole_pos_markers :: "wms \<Rightarrow> wms"
  remove_dipole_ori_markers :: "wms \<Rightarrow> wms"
  plot_evoked :: "bool \<Rightarrow> ws \<Rightarrow> ws"
  reset_topomaps :: "widget \<Rightarrow> widget"
  enable_crosshair_cursor :: "widget \<Rightarrow> widget"
  plot_slice :: "axis \<Rightarrow> real \<Rightarrow> ws \<Rightarrow> ws"

text \<open>
  A call of a helper with \<^verbatim>\<open>(widget, markers, state)\<close>, with \<^verbatim>\<open>(widget, state)\<close> or
  with \<^verbatim>\<open>widget\<close> alone: the dictionaries are replaced by what the helper left in them
  and the call is logged with the state it was made in.
\<close>

definition call_wms :: "call \<Rightarrow> (wms \<Rightarrow> wms) \<Rightarrow> app \<Rightarrow> app" where
  "call_wms c f a =
    (case f (widget a, markers a, state a) of
       (w, m, s) \<Rightarrow> a\<lparr>state := s, widget := w, markers := m, calls := calls a @ [(c, state a)]\<rparr>)"

definition call_ws :: "call \<Rightarrow> (ws \<Rightarrow> ws) \<Rightarrow> app \<Rightarrow> app" where
  "call_ws c f a =
    (case f (widget a, state a) of
       (w, s) \<Rightarrow> a\<lparr>state := s, widget := w, calls := calls a @ [(c, state a)]\<rparr>)"

definition call_w :: "call \<Rightarrow> (widget \<Rightarrow> widget) \<Rightarrow> app \<Rightarrow> app" where
  "call_w c f a = a\<lparr>widget := f (widget a), calls := calls a @ [(c, state a)]\<rparr>"

text \<open>The log entries a run from \<open>a\<close> to \<open>a'\<close> added, and how often a helper occurs.\<close>

definition issued :: "app \<Rightarrow> app \<Rightarrow> (call \<times> interaction_state) list" where
  "issued a a' = drop (length (calls a)) (calls a')"

definition invocations :: "call \<Rightarrow> (call \<times> interaction_state) list \<Rightarrow> nat" where
  "invocations c cs = length (filter (\<lambda>e. fst e = c) cs)"

subsection \<open>The methods of \<^verbatim>\<open>App\<close>\<close>

text \<open>\<^verbatim>\<open>App._toggle_updating_state\<close> (lines 183-189).\<close>

definition toggle_updating_state :: "app \<Rightarrow> app" where
  "toggle_updating_state a =
    (let a1 = a\<lparr>state := (state a)\<lparr>updating := \<not> updating (state a)\<rparr>\<rparr>
     in if updating (state a1)
        then a1\<lparr>widget := (widget a1)\<lparr>label_updating := updating_text\<rparr>\<rparr>
        else a1\<lparr>widget := (widget a1)\<lparr>label_updating := ready_text\<rparr>\<rparr>)"

text \<open>\<^verbatim>\<open>App._enable_crosshair_cursor\<close> (lines 324-325).\<close>

definition App_enable_crosshair_cursor :: "collab \<Rightarrow> app \<Rightarrow> app" where
  "App_enable_crosshair_cursor C a = call_w EnableCrosshairCursor (enable_crosshair_cursor C) a"

text \<open>
  The test of lines 233-235, 263-265 and 305-307:
  \<^verbatim>\<open>state['dipole_pos']['x'] is not None and state['dipole_ori']['x'] is not None and
  state['dipole_pos'] != state['dipole_ori']\<close>. Two dictionaries with the same keys are
  equal when their entries are.
\<close>

definition dipole_defined_and_distinct :: "interaction_state \<Rightarrow> bool" where
  "dipole_defined_and_distinct s \<longleftrightarrow>
     at_x (dipole_pos s) \<noteq> None \<and> at_x (dipole_ori s) \<noteq> None \<and> dipole_pos s \<noteq> dipole_ori s"

text \<open>\<^verbatim>\<open>App._plot_dipole_markers_and_arrow\<close> (lines 294-308).\<close>

definition App_plot_dipole_markers_and_arrow :: "collab \<Rightarrow> app \<Rightarrow> app" where
  "App_plot_dipole_markers_and_arrow C a =
    (let a1 = (if at_x (dipole_pos (state a)) \<noteq> None
               then call_wms PlotDipolePosMarker (plot_dipole_pos_marker C) a else a);
         a2 = (if at_x (dipole_ori (state a1)) \<noteq> None
               then call_wms PlotDipoleOriMarker (plot_dipole_ori_marker C) a1 else a1)
     in if dipole_defined_and_distinct (state a2)
        then call_ws DrawDipoleArrows (draw_dipole_arrows C) a2 else a2)"

text \<open>
  The field evaluation of lines 233-242 of the click handler, which lines 263-272 of the
  amplitude handler repeat word for word.
\<close>

definition evaluate_field_if_ready :: "collab \<Rightarrow> app \<Rightarrow> app" where
  "evaluate_field_if_ready C a =
    (if dipole_defined_and_distinct (state a)
     then call_ws PlotEvoked (plot_evoked C (exact_solution a)) a else a)"

text \<open>
  Lines 206-208: the loop over \<^verbatim>\<open>widget['fig'].items()\<close> stops at the first figure that
  is the clicked one; when none is, the loop variable keeps the last key.
\<close>

definition clicked_axis :: "nat per_axis \<Rightarrow> nat \<Rightarrow> axis" where
  "clicked_axis figs f =
    (if at_x figs = f then X_axis else if at_y figs = f then Y_axis else Z_axis)"

datatype mouse_button = LEFT | MIDDLE | RIGHT | BACK | FORWARD

text \<open>
  A mouse event: \<^verbatim>\<open>inaxes\<close> is \<^verbatim>\<open>None\<close> or an axes, of which only its figure is read.
\<close>

record mouse_event =
  button :: mouse_button
  inaxes :: "nat option"
  xdata :: real
  ydata :: real

text \<open>Lines 203-231 of \<^verbatim>\<open>_handle_slice_click\<close>: a click inside the axes of figure \<open>f\<close>.\<close>

definition dispatch_click :: "collab \<Rightarrow> nat \<Rightarrow> real \<Rightarrow> real \<Rightarrow> app \<Rightarrow> app" where
  "dispatch_click C f x y a =
    (let axis = clicked_axis (fig (widget a)) f;
         (x_idx, y_idx) = get_axis_names_from_slice C axis;
         remaining_idx = axis;
         a1 = (case mode (state a) of
                 slice_browser \<Rightarrow>
                   call_wms HandleClickInSliceBrowserMode
                     (handle_click_in_slice_browser_mode C x y x_idx y_idx) a
               | set_dipole_pos \<Rightarrow>
                   call_ws HandleClickInSetDipolePosMode
                     (handle_click_in_set_dipole_pos_mode C x_idx y_idx remaining_idx x y) a
               | set_dipole_ori \<Rightarrow>
                   call_ws HandleClickInSetDipoleOriMode
                     (handle_click_in_set_dipole_ori_mode C x_idx y_idx remaining_idx x y) a)
     in App_enable_crosshair_cursor C (App_plot_dipole_markers_and_arrow C a1))"

text \<open>
  \<^verbatim>\<open>App._handle_slice_click\<close> (lines 191-244). The decorator of line 191,
  \<^verbatim>\<open>@output_widget.capture(clear_output=True)\<close>, empties the output widget before the
  body runs.
\<close>

definition handle_slice_click :: "collab \<Rightarrow> mouse_event \<Rightarrow> app \<Rightarrow> app" where
  "handle_slice_click C event a =
    (let a0 = a\<lparr>widget := (widget a)\<lparr>output_widget := []\<rparr>\<rparr>
     in if button event \<noteq> LEFT then a0
        else let a1 = toggle_updating_state a0
             in case inaxes event of
                  None \<Rightarrow> toggle_updating_state a1
                | Some f \<Rightarrow>
                    toggle_updating_state
                      (evaluate_field_if_ready C
                        (dispatch_click C f (xdata event) (ydata event) a1)))"

text \<open>
  \<^verbatim>\<open>App._handle_amp_change\<close> (lines 252-274); \<open>new\<close> is \<^verbatim>\<open>change['new']\<close>, the
  slider's integer, which the product of line 260 first converts to a float.
\<close>

definition handle_amp_change :: "collab \<Rightarrow> int \<Rightarrow> app \<Rightarrow> app" where
  "handle_amp_change C new a =
    (let a1 = toggle_updating_state a;
         a2 = a1\<lparr>widget := (widget a1)\<lparr>amplitude_slider_disabled := True\<rparr>\<rparr>;
         new_amp = float_mul (binary64 (real_of_int new)) lit_1e_9;
         a3 = a2\<lparr>state := (state a2)\<lparr>dipole_amplitude := new_amp\<rparr>\<rparr>;
         a4 = evaluate_field_if_ready C a3;
         a5 = toggle_updating_state a4
     in a5\<lparr>widget := (widget a5)\<lparr>amplitude_slider_disabled := False\<rparr>\<rparr>)"

text \<open>
  \<^verbatim>\<open>App._plot_slice\<close> (lines 337-346) for a tuple of axes; \<^verbatim>\<open>'all'\<close> is
  \<^verbatim>\<open>('x', 'y', 'z')\<close>.
\<close>

fun App_plot_slice :: "collab \<Rightarrow> axis list \<Rightarrow> app \<Rightarrow> app" where
  "App_plot_slice C [] a = a"
| "App_plot_slice C (axis # axes) a =
    App_plot_slice C axes
      (call_ws (PlotSlice axis)
         (plot_slice C axis (val (item axis (slice_coord (state a))))) a)"

definition all_axes :: "axis list" where
  "all_axes = [X_axis, Y_axis, Z_axis]"

text \<open>
  An assignment to \<^verbatim>\<open>widget['amplitude_slider'].value\<close>. The slider is an
  \<^verbatim>\<open>IntSlider(min=5, max=100)\<close>: the assigned value is cast with \<^verbatim>\<open>int\<close> and brought
  into the range, and when it differs from the value shown, the observer registered in
  lines 164-165, \<^verbatim>\<open>_handle_amp_change\<close>, runs with it.
\<close>

definition assign_amplitude_slider :: "collab \<Rightarrow> real \<Rightarrow> app \<Rightarrow> app" where
  "assign_amplitude_slider C r a =
    (let v = min (max (py_int r) 5) 100
     in if v = amplitude_slider_value (widget a) then a
        else handle_amp_change C v (a\<lparr>widget := (widget a)\<lparr>amplitude_slider_value := v\<rparr>\<rparr>))"

text \<open>\<^verbatim>\<open>App._handle_reset_button_click\<close> (lines 276-292).\<close>

definition handle_reset_button_click :: "collab \<Rightarrow> app \<Rightarrow> app" where
  "handle_reset_button_click C a =
    (let a1 = call_w RemoveDipoleArrows (remove_dipole_arrows C) a;
         a2 = call_wms RemoveDipolePosMarkers (remove_dipole_pos_markers C) a1;
         a3 = call_wms RemoveDipoleOriMarkers (remove_dipole_ori_markers C) a2;
         a4 = a3\<lparr>state := init_state\<rparr>;
         a5 = App_plot_slice C all_axes a4;
         a6 = call_w ResetTopomaps (reset_topomaps C) a5;
         a7 = a6\<lparr>widget := (widget a6)\<lparr>label_dipole_pos := ''Not set''\<rparr>\<rparr>;
         a8 = a7\<lparr>widget := (widget a7)\<lparr>label_dipole_ori := ''Not set''\<rparr>\<rparr>;
         a9 = assign_amplitude_slider C (float_mul (dipole_amplitude (state a8)) lit_1e9) a8
     in App_enable_crosshair_cursor C a9)"

text \<open>\<^verbatim>\<open>App._set_view_mode\<close> (lines 310-318) and \<^verbatim>\<open>App._handle_view_mode_change\<close>
  (lines 320-322); \<open>new_mode\<close> is \<^verbatim>\<open>change['new']\<close>.\<close>

definition set_view_mode :: "string \<Rightarrow> app \<Rightarrow> app" where
  "set_view_mode new_mode a =
    (if new_mode = ''Slice Browser'' then a\<lparr>state := (state a)\<lparr>mode := slice_browser\<rparr>\<rparr>
     else if new_mode = ''Set Dipole Origin'' then a\<lparr>state := (state a)\<lparr>mode := set_dipole_pos\<rparr>\<rparr>
     else if new_mode = ''Set Dipole Orientation''
       then a\<lparr>state := (state a)\<lparr>mode := set_dipole_ori\<rparr>\<rparr>
     else a)"

definition handle_view_mode_change :: "string \<Rightarrow> app \<Rightarrow> app" where
  "handle_view_mode_change new_mode a = set_view_mode new_mode a"

section \<open>Helpers of the sibling modules, as the specification describes them\<close>

text \<open>
  Modelled from the spec: \<^verbatim>\<open>slice.get_axis_names_from_slice\<close>, whose module is not among
  the sources. "the clicked 2-D point (in one of three orthogonal planes) plus the third
  axis": a slice view shows the two axes other than its own.
\<close>

definition spec_get_axis_names_from_slice :: "axis \<Rightarrow> axis \<times> axis" where
  "spec_get_axis_names_from_slice slice_view =
    (case slice_view of
       X_axis \<Rightarrow> (Y_axis, Z_axis)
     | Y_axis \<Rightarrow> (X_axis, Z_axis)
     | Z_axis \<Rightarrow> (X_axis, Y_axis))"

text \<open>
  Modelled from the spec: the state change of
  \<^verbatim>\<open>callbacks.handle_click_in_slice_browser_mode\<close>, whose module is not among the
  sources. "browsing: updates the crosshair/slice position to the clicked location; does
  not touch dipole fields."
\<close>

definition browse_to ::
    "real \<Rightarrow> real \<Rightarrow> axis \<Rightarrow> axis \<Rightarrow> interaction_state \<Rightarrow> interaction_state" where
  "browse_to x y x_idx y_idx s =
    (let sc1 = set_item x_idx ((item x_idx (slice_coord s))\<lparr>val := x\<rparr>) (slice_coord s);
         sc2 = set_item y_idx ((item y_idx sc1)\<lparr>val := y\<rparr>) sc1;
         ch = set_item y_idx y (set_item x_idx x (crosshair_pos s))
     in s\<lparr>slice_coord := sc2, crosshair_pos := ch\<rparr>)"

text \<open>
  Modelled from the spec: \<^verbatim>\<open>callbacks.handle_click_in_slice_browser_mode\<close> (module not
  among the sources), which applies the state change above.
\<close>

definition spec_handle_click_in_slice_browser_mode ::
    "real \<Rightarrow> real \<Rightarrow> axis \<Rightarrow> axis \<Rightarrow> wms \<Rightarrow> wms" where
  "spec_handle_click_in_slice_browser_mode x y x_idx y_idx =
    (\<lambda>(w, m, s). (w, m, browse_to x y x_idx y_idx s))"

text \<open>
  Modelled from the spec: the point written by the two dipole callbacks of module
  \<^verbatim>\<open>callbacks\<close> (not among the sources). "resolves the clicked 2-D point (in one of three
  orthogonal planes) plus the third axis's current browse coordinate into a full 3-D
  point".
\<close>

definition resolve_3d :: "interaction_state \<Rightarrow> axis \<Rightarrow> axis \<Rightarrow> axis \<Rightarrow> real \<Rightarrow> real
    \<Rightarrow> real option per_axis \<Rightarrow> real option per_axis" where
  "resolve_3d s x_idx y_idx remaining_idx x y d =
    set_item remaining_idx (Some (val (item remaining_idx (slice_coord s))))
      (set_item y_idx (Some y) (set_item x_idx (Some x) d))"

text \<open>
  Modelled from the spec: \<^verbatim>\<open>callbacks.handle_click_in_set_dipole_pos_mode\<close> (module not
  among the sources). "settingPosition: ... writes dipolePosition."
\<close>

definition spec_handle_click_in_set_dipole_pos_mode ::
    "axis \<Rightarrow> axis \<Rightarrow> axis \<Rightarrow> real \<Rightarrow> real \<Rightarrow> ws \<Rightarrow> ws" where
  "spec_handle_click_in_set_dipole_pos_mode x_idx y_idx remaining_idx x y =
    (\<lambda>(w, s). (w, s\<lparr>dipole_pos := resolve_3d s x_idx y_idx remaining_idx x y (dipole_pos s)\<rparr>))"

text \<open>
  Modelled from the spec: \<^verbatim>\<open>callbacks.handle_click_in_set_dipole_ori_mode\<close> (module not
  among the sources). "settingOrientation: same resolution, writes dipoleOrientation."
\<close>

definition spec_handle_click_in_set_dipole_ori_mode ::
    "axis \<Rightarrow> axis \<Rightarrow> axis \<Rightarrow> real \<Rightarrow> real \<Rightarrow> ws \<Rightarrow> ws" where
  "spec_handle_click_in_set_dipole_ori_mode x_idx y_idx remaining_idx x y =
    (\<lambda>(w, s). (w, s\<lparr>dipole_ori := resolve_3d s x_idx y_idx remaining_idx x y (dipole_ori s)\<rparr>))"

text \<open>
  Modelled from the spec: \<^verbatim>\<open>dipole.plot_dipole_pos_marker\<close> (module not among the
  sources). "MarkerSet: transient rendering handles for position/orientation glyphs per
  slice axis; ... recreated whenever markers are redrawn". The handles are numbered.
\<close>

definition spec_plot_dipole_pos_marker :: "wms \<Rightarrow> wms" where
  "spec_plot_dipole_pos_marker =
    (\<lambda>(w, m, s). (w, m\<lparr>markers_dipole_pos := \<lparr>at_x = Some 0, at_y = Some 1, at_z = Some 2\<rparr>\<rparr>, s))"

text \<open>
  Modelled from the spec: \<^verbatim>\<open>dipole.plot_dipole_ori_marker\<close> (module not among the
  sources), as the position marker above.
\<close>

definition spec_plot_dipole_ori_marker :: "wms \<Rightarrow> wms" where
  "spec_plot_dipole_ori_marker =
    (\<lambda>(w, m, s). (w, m\<lparr>markers_dipole_ori := \<lparr>at_x = Some 3, at_y = Some 4, at_z = Some 5\<rparr>\<rparr>, s))"

definition unset_handles :: "nat option per_axis" where
  "unset_handles = \<lparr>at_x = None, at_y = None, at_z = None\<rparr>"

text \<open>
  Modelled from the spec: \<^verbatim>\<open>dipole.remove_dipole_pos_markers\<close> (module not among the
  sources). "clears all dipole markers/arrows"; the marker set is "invalidated on reset".
\<close>

definition spec_remove_dipole_pos_markers :: "wms \<Rightarrow> wms" where
  "spec_remove_dipole_pos_markers = (\<lambda>(w, m, s). (w, m\<lparr>markers_dipole_pos := unset_handles\<rparr>, s))"

text \<open>
  Modelled from the spec: \<^verbatim>\<open>dipole.remove_dipole_ori_markers\<close> (module not among the
  sources), as for the position markers.
\<close>

definition spec_remove_dipole_ori_markers :: "wms \<Rightarrow> wms" where
  "spec_remove_dipole_ori_markers = (\<lambda>(w, m, s). (w, m\<lparr>markers_dipole_ori := unset_handles\<rparr>, s))"

text \<open>
  Modelled from the spec: the helpers of the modules \<^verbatim>\<open>slice\<close>, \<^verbatim>\<open>callbacks\<close>,
  \<^verbatim>\<open>dipole\<close>, \<^verbatim>\<open>evoked_field\<close> and \<^verbatim>\<open>cursor\<close> together (none among the sources). The
  helpers that only render (arrows, sensor field, topomaps, cursor, slices) are "opaque
  services": they leave the dictionaries of the record as they are.
\<close>

definition spec_collab :: collab where
  "spec_collab =
    \<lparr>get_axis_names_from_slice = spec_get_axis_names_from_slice,
     handle_click_in_slice_browser_mode = spec_handle_click_in_slice_browser_mode,
     handle_click_in_set_dipole_pos_mode = spec_handle_click_in_set_dipole_pos_mode,
     handle_click_in_set_dipole_ori_mode = spec_handle_click_in_set_dipole_ori_mode,
     plot_dipole_pos_marker = spec_plot_dipole_pos_marker,
     plot_dipole_ori_marker = spec_plot_dipole_ori_marker,
     draw_dipole_arrows = (\<lambda>ws. ws),
     remove_dipole_arrows = (\<lambda>w. w),
     remove_dipole_pos_markers = spec_remove_dipole_pos_markers,
     remove_dipole_ori_markers = spec_remove_dipole_ori_markers,
     plot_evoked = (\<lambda>exact ws. ws),
     reset_topomaps = (\<lambda>w. w),
     enable_crosshair_cursor = (\<lambda>w. w),
     plot_slice = (\<lambda>axis pos ws. ws)\<rparr>"

text \<open>
  The state in which a click inside figure \<open>f\<close> leaves the dispatch of lines 214-228
  under these helpers.
\<close>

definition spec_click_state ::
    "nat per_axis \<Rightarrow> nat \<Rightarrow> real \<Rightarrow> real \<Rightarrow> interaction_state \<Rightarrow> interaction_state" where
  "spec_click_state figs f x y s =
    (let axis = clicked_axis figs f;
         x_idx = fst (spec_get_axis_names_from_slice axis);
         y_idx = snd (spec_get_axis_names_from_slice axis)
     in case mode s of
          slice_browser \<Rightarrow> browse_to x y x_idx y_idx s
        | set_dipole_pos \<Rightarrow> s\<lparr>dipole_pos := resolve_3d s x_idx y_idx axis x y (dipole_pos s)\<rparr>
        | set_dipole_ori \<Rightarrow> s\<lparr>dipole_ori := resolve_3d s x_idx y_idx axis x y (dipole_ori s)\<rparr>)"

section \<open>The vocabulary of the specification\<close>

text \<open>
  "dipolePosition: 3 scalars or unset": a dipole dictionary is fully defined when its
  three entries are set and unset when none is; the data model admits no other.
\<close>

definition fully_defined :: "real option per_axis \<Rightarrow> bool" where
  "fully_defined d \<longleftrightarrow> at_x d \<noteq> None \<and> at_y d \<noteq> None \<and> at_z d \<noteq> None"

definition unset :: "real option per_axis \<Rightarrow> bool" where
  "unset d \<longleftrightarrow> at_x d = None \<and> at_y d = None \<and> at_z d = None"

definition dipole_wellformed :: "interaction_state \<Rightarrow> bool" where
  "dipole_wellformed s \<longleftrightarrow>
     (fully_defined (dipole_pos s) \<or> unset (dipole_pos s)) \<and>
     (fully_defined (dipole_ori s) \<or> unset (dipole_ori s))"

text \<open>The readiness invariant of the specification, and its failure as the claim words it.\<close>

definition ready :: "interaction_state \<Rightarrow> bool" where
  "ready s \<longleftrightarrow>
     fully_defined (dipole_pos s) \<and> fully_defined (dipole_ori s) \<and> dipole_pos s \<noteq> dipole_ori s"

definition unset_or_equal :: "interaction_state \<Rightarrow> bool" where
  "unset_or_equal s \<longleftrightarrow>
     unset (dipole_pos s) \<or> unset (dipole_ori s) \<or> dipole_pos s = dipole_ori s"

text \<open>
  The state in which a left click inside the axes of figure \<open>f\<close> reaches the test of
  line 233: after the decorator, the first toggle and lines 203-231.
\<close>

definition state_before_evaluation ::
    "collab \<Rightarrow> mouse_event \<Rightarrow> nat \<Rightarrow> app \<Rightarrow> interaction_state" where
  "state_before_evaluation C event f a =
    state (dispatch_click C f (xdata event) (ydata event)
      (toggle_updating_state (a\<lparr>widget := (widget a)\<lparr>output_widget := []\<rparr>\<rparr>)))"

text \<open>The label agrees with the flag.\<close>

definition label_consistent :: "app \<Rightarrow> bool" where
  "label_consistent a \<longleftrightarrow>
     (label_updating (widget a) = updating_text \<longleftrightarrow> updating (state a)) \<and>
     (label_updating (widget a) = ready_text \<longleftrightarrow> \<not> updating (state a))"

text \<open>
  The selector option of each mode: the options of lines 142-143 as lines 313-318
  pair them with the modes.
\<close>

definition option_of_mode :: "mode \<Rightarrow> string" where
  "option_of_mode m =
    (case m of
       slice_browser \<Rightarrow> ''Slice Browser''
     | set_dipole_pos \<Rightarrow> ''Set Dipole Origin''
     | set_dipole_ori \<Rightarrow> ''Set Dipole Orientation'')"

text \<open>
  Two states agree on the dipole, the amplitude, the mode and the flag; two states agree
  on the slice position and the crosshair along one axis.
\<close>

definition same_dipole_fields :: "interaction_state \<Rightarrow> interaction_state \<Rightarrow> bool" where
  "same_dipole_fields s s' \<longleftrightarrow>
     dipole_pos s' = dipole_pos s \<and> dipole_ori s' = dipole_ori s \<and>
     dipole_amplitude s' = dipole_amplitude s \<and> mode s' = mode s \<and> updating s' = updating s"

definition same_off_plane :: "axis \<Rightarrow> interaction_state \<Rightarrow> interaction_state \<Rightarrow> bool" where
  "same_off_plane axis s s' \<longleftrightarrow>
     item axis (slice_coord s') = item axis (slice_coord s) \<and>
     item axis (crosshair_pos s') = item axis (crosshair_pos s)"

subsection \<open>What is assumed of a helper\<close>

text \<open>
  A helper called on a state that satisfies \<open>Q0\<close> leaves one that satisfies \<open>Q\<close>,
  whatever the widget and the markers are.
\<close>

definition ws_hoare ::
    "(interaction_state \<Rightarrow> bool) \<Rightarrow> (ws \<Rightarrow> ws) \<Rightarrow> (interaction_state \<Rightarrow> bool) \<Rightarrow> bool" where
  "ws_hoare Q0 f Q \<longleftrightarrow> (\<forall>w s. Q0 s \<longrightarrow> Q (snd (f (w, s))))"

definition wms_hoare ::
    "(interaction_state \<Rightarrow> bool) \<Rightarrow> (wms \<Rightarrow> wms) \<Rightarrow> (interaction_state \<Rightarrow> bool) \<Rightarrow> bool" where
  "wms_hoare Q0 h Q \<longleftrightarrow> (\<forall>w m s. Q0 s \<longrightarrow> Q (snd (snd (h (w, m, s)))))"

text \<open>The four rendering helpers of the two handlers keep \<open>Q\<close>; the three callbacks do.\<close>

definition renderers_keep :: "collab \<Rightarrow> (interaction_state \<Rightarrow> bool) \<Rightarrow> bool" where
  "renderers_keep C Q \<longleftrightarrow>
     wms_hoare Q (plot_dipole_pos_marker C) Q \<and>
     wms_hoare Q (plot_dipole_ori_marker C) Q \<and>
     ws_hoare Q (draw_dipole_arrows C) Q \<and>
     (\<forall>exact. ws_hoare Q (plot_evoked C exact) Q)"

definition callbacks_keep :: "collab \<Rightarrow> (interaction_state \<Rightarrow> bool) \<Rightarrow> bool" where
  "callbacks_keep C Q \<longleftrightarrow>
     (\<forall>x y x_idx y_idx. wms_hoare Q (handle_click_in_slice_browser_mode C x y x_idx y_idx) Q) \<and>
     (\<forall>x y x_idx y_idx r. ws_hoare Q (handle_click_in_set_dipole_pos_mode C x_idx y_idx r x y) Q) \<and>
     (\<forall>x y x_idx y_idx r. ws_hoare Q (handle_click_in_set_dipole_ori_mode C x_idx y_idx r x y) Q)"

text \<open>
  What the reset relies on: re-rendering a slice leaves the default state as it is, no
  helper of the reset moves the amplitude slider, and the two removers clear their
  handles (and the orientation remover nothing else of the markers).
\<close>

definition reset_contract :: "collab \<Rightarrow> bool" where
  "reset_contract C \<longleftrightarrow>
     (\<forall>axis pos. ws_hoare (\<lambda>s. s = init_state) (plot_slice C axis pos) (\<lambda>s. s = init_state)) \<and>
     (\<forall>w. amplitude_slider_value (remove_dipole_arrows C w) = amplitude_slider_value w) \<and>
     (\<forall>w m s. amplitude_slider_value (fst (remove_dipole_pos_markers C (w, m, s))) =
        amplitude_slider_value w) \<and>
     (\<forall>w m s. amplitude_slider_value (fst (remove_dipole_ori_markers C (w, m, s))) =
        amplitude_slider_value w) \<and>
     (\<forall>axis pos w s. amplitude_slider_value (fst (plot_slice C axis pos (w, s))) =
        amplitude_slider_value w) \<and>
     (\<forall>w. amplitude_slider_value (reset_topomaps C w) = amplitude_slider_value w) \<and>
     (\<forall>w. amplitude_slider_value (enable_crosshair_cursor C w) = amplitude_slider_value w) \<and>
     (\<forall>w m s. markers_dipole_pos (fst (snd (remove_dipole_pos_markers C (w, m, s)))) =
        unset_handles) \<and>
     (\<forall>w m s. fst (snd (remove_dipole_ori_markers C (w, m, s))) =
        m\<lparr>markers_dipole_ori := unset_handles\<rparr>)"

text \<open>
  What browsing relies on: a slice view names two axes other than its own, the browsing
  callback changes neither the dipole fields nor the entries of an axis outside the
  clicked plane, and the rendering helpers change neither.
\<close>

definition browse_contract :: "collab \<Rightarrow> bool" where
  "browse_contract C \<longleftrightarrow>
     (\<forall>slice_view. fst (get_axis_names_from_slice C slice_view) \<noteq> slice_view \<and>
                   snd (get_axis_names_from_slice C slice_view) \<noteq> slice_view) \<and>
     (\<forall>x y x_idx y_idx s0 axis. axis \<noteq> x_idx \<and> axis \<noteq> y_idx \<longrightarrow>
        wms_hoare (\<lambda>s. s = s0) (handle_click_in_slice_browser_mode C x y x_idx y_idx)
          (\<lambda>s'. same_dipole_fields s0 s' \<and> same_off_plane axis s0 s')) \<and>
     (\<forall>s0 axis. renderers_keep C (\<lambda>s'. same_dipole_fields s0 s' \<and> same_off_plane axis s0 s'))"

subsection \<open>Reading the log along a handler\<close>

text \<open>
  From \<open>a\<close> to \<open>a'\<close> the log only grew, by entries that satisfy \<open>P\<close>; and the state
  reached satisfies \<open>Q\<close>.
\<close>

definition extends :: "(call \<times> interaction_state \<Rightarrow> bool) \<Rightarrow> app \<Rightarrow> app \<Rightarrow> bool" where
  "extends P a a' \<longleftrightarrow> (\<exists>cs. calls a' = calls a @ cs \<and> (\<forall>e \<in> set cs. P e))"

definition step_ok ::
    "(call \<times> interaction_state \<Rightarrow> bool) \<Rightarrow> (interaction_state \<Rightarrow> bool) \<Rightarrow> app \<Rightarrow> app \<Rightarrow> bool" where
  "step_ok P Q a a' \<longleftrightarrow> extends P a a' \<and> Q (state a')"

text \<open>The two handlers up to their last toggle.\<close>

definition click_body :: "collab \<Rightarrow> mouse_event \<Rightarrow> nat \<Rightarrow> app \<Rightarrow> app" where
  "click_body C event f a =
     evaluate_field_if_ready C
       (dispatch_click C f (xdata event) (ydata event)
         (toggle_updating_state (a\<lparr>widget := (widget a)\<lparr>output_widget := []\<rparr>\<rparr>)))"

definition amp_body :: "collab \<Rightarrow> int \<Rightarrow> app \<Rightarrow> app" where
  "amp_body C new a =
    (let a1 = toggle_updating_state a;
         a2 = a1\<lparr>widget := (widget a1)\<lparr>amplitude_slider_disabled := True\<rparr>\<rparr>;
         a3 = a2\<lparr>state := (state a2)\<lparr>dipole_amplitude := float_mul (binary64 (real_of_int new)) lit_1e_9\<rparr>\<rparr>
     in evaluate_field_if_ready C a3)"

subsection \<open>Example inputs\<close>

text \<open>
  A left click at \<open>(x, y)\<close> in figure \<open>f\<close>; the controller after the position
  \<open>(1, 2, 0)\<close> was set and the orientation mode chosen; the controller with both
  position and orientation set; the controller with a line of captured output.
\<close>

definition click_at :: "nat \<Rightarrow> real \<Rightarrow> real \<Rightarrow> mouse_event" where
  "click_at f x y = \<lparr>button = LEFT, inaxes = Some f, xdata = x, ydata = y\<rparr>"

definition placed_app :: app where
  "placed_app =
     init_app\<lparr>state := init_state
       \<lparr>dipole_pos := \<lparr>at_x = Some 1, at_y = Some 2, at_z = Some 0\<rparr>, mode := set_dipole_ori\<rparr>\<rparr>"

definition ready_app :: app where
  "ready_app =
     init_app\<lparr>state := init_state
       \<lparr>dipole_pos := \<lparr>at_x = Some 1, at_y = Some 2, at_z = Some 0\<rparr>,
        dipole_ori := \<lparr>at_x = Some 4, at_y = Some 5, at_z = Some 0\<rparr>\<rparr>\<rparr>"

text \<open>
  The controller after the user has dragged the amplitude slider from 50 to 75: the
  slider shows 75 and its observer has run.
\<close>

definition moved_app :: app where
  "moved_app = assign_amplitude_slider spec_collab 75 init_app"

definition logged_app :: app where
  "logged_app = init_app\<lparr>widget := (init_widget init_state)\<lparr>output_widget := [''Reading forward solution'']\<rparr>\<rparr>"

section \<open>Properties\<close>

subsection \<open>The fields each building block touches\<close>

lemma texts_differ: "updating_text \<noteq> ready_text"
  by (simp add: updating_text_def ready_text_def)

lemma state_toggle [simp]:
  "state (toggle_updating_state a) = (state a)\<lparr>updating := \<not> updating (state a)\<rparr>"
  by (simp add: toggle_updating_state_def Let_def)

lemma calls_toggle [simp]: "calls (toggle_updating_state a) = calls a"
  by (simp add: toggle_updating_state_def Let_def)

lemma markers_toggle [simp]: "markers (toggle_updating_state a) = markers a"
  by (simp add: toggle_updating_state_def Let_def)

lemma exact_toggle [simp]: "exact_solution (toggle_updating_state a) = exact_solution a"
  by (simp add: toggle_updating_state_def Let_def)

lemma widget_toggle [simp]:
  "widget (toggle_updating_state a) =
     (widget a)\<lparr>label_updating := (if updating (state a) then ready_text else updating_text)\<rparr>"
  by (simp add: toggle_updating_state_def Let_def)

lemma calls_call [simp]:
  "calls (call_w c g a) = calls a @ [(c, state a)]"
  "calls (call_ws c f a) = calls a @ [(c, state a)]"
  "calls (call_wms c h a) = calls a @ [(c, state a)]"
  by (simp_all add: call_w_def call_ws_def call_wms_def split: prod.splits)

lemma state_call [simp]:
  "state (call_w c g a) = state a"
  "state (call_ws c f a) = snd (f (widget a, state a))"
  "state (call_wms c h a) = snd (snd (h (widget a, markers a, state a)))"
  by (simp_all add: call_w_def call_ws_def call_wms_def split: prod.splits)

lemma markers_call [simp]:
  "markers (call_w c g a) = markers a"
  "markers (call_ws c f a) = markers a"
  "markers (call_wms c h a) = fst (snd (h (widget a, markers a, state a)))"
  by (simp_all add: call_w_def call_ws_def call_wms_def split: prod.splits)

lemma widget_call [simp]:
  "widget (call_w c g a) = g (widget a)"
  "widget (call_ws c f a) = fst (f (widget a, state a))"
  "widget (call_wms c h a) = fst (h (widget a, markers a, state a))"
  by (simp_all add: call_w_def call_ws_def call_wms_def split: prod.splits)

lemma exact_call [simp]:
  "exact_solution (call_w c g a) = exact_solution a"
  "exact_solution (call_ws c f a) = exact_solution a"
  "exact_solution (call_wms c h a) = exact_solution a"
  by (simp_all add: call_w_def call_ws_def call_wms_def split: prod.splits)

subsection \<open>The test of line 233 and the readiness of the specification\<close>

lemma ready_imp_defined_and_distinct: "ready s \<Longrightarrow> dipole_defined_and_distinct s"
  by (simp add: ready_def fully_defined_def dipole_defined_and_distinct_def)

lemma defined_wellformed_ready:
  "dipole_defined_and_distinct s \<Longrightarrow> dipole_wellformed s \<Longrightarrow> ready s"
  by (auto simp: ready_def fully_defined_def dipole_defined_and_distinct_def
      dipole_wellformed_def unset_def)

lemma unset_or_equal_not_defined: "unset_or_equal s \<Longrightarrow> \<not> dipole_defined_and_distinct s"
  by (auto simp: unset_or_equal_def unset_def dipole_defined_and_distinct_def)

lemma defined_and_distinct_frame [simp]:
  "dipole_defined_and_distinct (s\<lparr>updating := u\<rparr>) = dipole_defined_and_distinct s"
  "dipole_defined_and_distinct (s\<lparr>dipole_amplitude := v\<rparr>) = dipole_defined_and_distinct s"
  by (simp_all add: dipole_defined_and_distinct_def)

lemma not_ready_init: "\<not> dipole_defined_and_distinct init_state"
  by (simp add: dipole_defined_and_distinct_def init_state_def)

subsection \<open>Growth of the log\<close>

lemma extends_refl: "calls a' = calls a \<Longrightarrow> extends P a a'"
  by (simp add: extends_def)

lemma extends_trans: "extends P a a' \<Longrightarrow> extends P a' a'' \<Longrightarrow> extends P a a''"
  by (auto simp: extends_def)

lemma extends_call:
  "P (c, state a) \<Longrightarrow> extends P a (call_w c g a)"
  "P (c, state a) \<Longrightarrow> extends P a (call_ws c f a)"
  "P (c, state a) \<Longrightarrow> extends P a (call_wms c h a)"
  by (simp_all add: extends_def)

lemma extends_issued: "extends P a a' \<Longrightarrow> e \<in> set (issued a a') \<Longrightarrow> P e"
  by (auto simp: extends_def issued_def)

lemma invocations_append [simp]:
  "invocations c (xs @ ys) = invocations c xs + invocations c ys"
  by (simp add: invocations_def)

lemma invocations_fst: "invocations c cs = length (filter (\<lambda>c'. c' = c) (map fst cs))"
  by (induction cs) (simp_all add: invocations_def)

lemma step_ok_trans:
  "step_ok P Q0 a a' \<Longrightarrow> (Q0 (state a') \<Longrightarrow> step_ok P Q a' a'') \<Longrightarrow> step_ok P Q a a''"
  by (auto simp: step_ok_def intro: extends_trans)

lemma step_ok_skip: "Q (state a) \<Longrightarrow> step_ok P Q a a"
  by (simp add: step_ok_def extends_refl)

lemma step_ok_call_ws:
  "ws_hoare Q0 f Q \<Longrightarrow> Q0 (state a) \<Longrightarrow> P (c, state a) \<Longrightarrow> step_ok P Q a (call_ws c f a)"
  by (simp add: step_ok_def extends_call ws_hoare_def)

lemma step_ok_call_wms:
  "wms_hoare Q0 h Q \<Longrightarrow> Q0 (state a) \<Longrightarrow> P (c, state a) \<Longrightarrow> step_ok P Q a (call_wms c h a)"
  by (simp add: step_ok_def extends_call wms_hoare_def)

lemma step_ok_call_w:
  "Q (state a) \<Longrightarrow> P (c, state a) \<Longrightarrow> step_ok P Q a (call_w c g a)"
  by (simp add: step_ok_def extends_call)

subsection \<open>The building blocks of the click handler\<close>

lemma markers_arrow_ok:
  assumes R: "renderers_keep C Q" and Q: "Q (state a)"
    and P: "\<And>c s. Q s \<Longrightarrow> c \<noteq> PlotEvoked \<Longrightarrow> P (c, s)"
  shows "step_ok P Q a (App_plot_dipole_markers_and_arrow C a)"
proof -
  define a1 where "a1 = (if at_x (dipole_pos (state a)) \<noteq> None
               then call_wms PlotDipolePosMarker (plot_dipole_pos_marker C) a else a)"
  define a2 where "a2 = (if at_x (dipole_ori (state a1)) \<noteq> None
               then call_wms PlotDipoleOriMarker (plot_dipole_ori_marker C) a1 else a1)"
  define a3 where "a3 = (if dipole_defined_and_distinct (state a2)
        then call_ws DrawDipoleArrows (draw_dipole_arrows C) a2 else a2)"
  have 1: "step_ok P Q a a1"
    unfolding a1_def using R Q P
    by (auto simp: renderers_keep_def intro: step_ok_skip step_ok_call_wms)
  have 2: "step_ok P Q a1 a2" if "Q (state a1)"
    unfolding a2_def using R that P
    by (auto simp: renderers_keep_def intro: step_ok_skip step_ok_call_wms)
  have 3: "step_ok P Q a2 a3" if "Q (state a2)"
    unfolding a3_def using R that P
    by (auto simp: renderers_keep_def intro: step_ok_skip step_ok_call_ws)
  have "step_ok P Q a a3"
    by (rule step_ok_trans [OF step_ok_trans [OF 1 2] 3])
  moreover have "App_plot_dipole_markers_and_arrow C a = a3"
    by (simp add: App_plot_dipole_markers_and_arrow_def Let_def a1_def a2_def a3_def)
  ultimately show ?thesis by simp
qed

lemma evaluate_ok:
  assumes R: "renderers_keep C Q" and Q: "Q (state a)"
    and P: "\<And>s. Q s \<Longrightarrow> dipole_defined_and_distinct s \<Longrightarrow> P (PlotEvoked, s)"
  shows "step_ok P Q a (evaluate_field_if_ready C a)"
  unfolding evaluate_field_if_ready_def using R Q P
  by (auto simp: renderers_keep_def intro: step_ok_skip step_ok_call_ws)

lemma dispatch_ok:
  assumes R: "renderers_keep C Q"
    and B: "mode (state a) = slice_browser \<Longrightarrow>
        wms_hoare Q0 (handle_click_in_slice_browser_mode C x y
           (fst (get_axis_names_from_slice C (clicked_axis (fig (widget a)) f)))
           (snd (get_axis_names_from_slice C (clicked_axis (fig (widget a)) f)))) Q"
    and Dp: "mode (state a) = set_dipole_pos \<Longrightarrow>
        ws_hoare Q0 (handle_click_in_set_dipole_pos_mode C
           (fst (get_axis_names_from_slice C (clicked_axis (fig (widget a)) f)))
           (snd (get_axis_names_from_slice C (clicked_axis (fig (widget a)) f)))
           (clicked_axis (fig (widget a)) f) x y) Q"
    and Do: "mode (state a) = set_dipole_ori \<Longrightarrow>
        ws_hoare Q0 (handle_click_in_set_dipole_ori_mode C
           (fst (get_axis_names_from_slice C (clicked_axis (fig (widget a)) f)))
           (snd (get_axis_names_from_slice C (clicked_axis (fig (widget a)) f)))
           (clicked_axis (fig (widget a)) f) x y) Q"
    and Q0: "Q0 (state a)"
    and P0: "\<And>c. c \<noteq> PlotEvoked \<Longrightarrow> P (c, state a)"
    and P: "\<And>c s. Q s \<Longrightarrow> c \<noteq> PlotEvoked \<Longrightarrow> P (c, s)"
  shows "step_ok P Q a (dispatch_click C f x y a)"
proof -
  define ax where "ax = clicked_axis (fig (widget a)) f"
  define xi where "xi = fst (get_axis_names_from_slice C ax)"
  define yi where "yi = snd (get_axis_names_from_slice C ax)"
  define a1 where "a1 = (case mode (state a) of
                 slice_browser \<Rightarrow>
                   call_wms HandleClickInSliceBrowserMode
                     (handle_click_in_slice_browser_mode C x y xi yi) a
               | set_dipole_pos \<Rightarrow>
                   call_ws HandleClickInSetDipolePosMode
                     (handle_click_in_set_dipole_pos_mode C xi yi ax x y) a
               | set_dipole_ori \<Rightarrow>
                   call_ws HandleClickInSetDipoleOriMode
                     (handle_click_in_set_dipole_ori_mode C xi yi ax x y) a)"
  have eq: "dispatch_click C f x y a =
      App_enable_crosshair_cursor C (App_plot_dipole_markers_and_arrow C a1)"
    unfolding dispatch_click_def Let_def case_prod_beta a1_def xi_def yi_def ax_def
    by (rule refl)
  have 1: "step_ok P Q a a1"
  proof (cases "mode (state a)")
    case slice_browser
    with B [OF slice_browser] Q0 P0 show ?thesis
      by (simp add: a1_def xi_def yi_def ax_def step_ok_call_wms)
  next
    case set_dipole_pos
    with Dp [OF set_dipole_pos] Q0 P0 show ?thesis
      by (simp add: a1_def xi_def yi_def ax_def step_ok_call_ws)
  next
    case set_dipole_ori
    with Do [OF set_dipole_ori] Q0 P0 show ?thesis
      by (simp add: a1_def xi_def yi_def ax_def step_ok_call_ws)
  qed
  have 2: "step_ok P Q a1 (App_plot_dipole_markers_and_arrow C a1)" if "Q (state a1)"
    using R that P by (rule markers_arrow_ok)
  have 3: "step_ok P Q a2 (App_enable_crosshair_cursor C a2)" if "Q (state a2)" for a2
    unfolding App_enable_crosshair_cursor_def using that P by (auto intro: step_ok_call_w)
  show ?thesis
    unfolding eq by (rule step_ok_trans [OF step_ok_trans [OF 1 2] 3])
qed

lemma renderers_keep_True: "renderers_keep C (\<lambda>_. True)"
  by (simp add: renderers_keep_def ws_hoare_def wms_hoare_def)

lemma callbacks_keep_True: "callbacks_keep C (\<lambda>_. True)"
  by (simp add: callbacks_keep_def ws_hoare_def wms_hoare_def)

subsection \<open>The two handlers that may evaluate the field\<close>

lemma click_outside:
  "button event \<noteq> LEFT \<or> inaxes event = None \<Longrightarrow>
   calls (handle_slice_click C event a) = calls a \<and>
   state (handle_slice_click C event a) = state a"
  by (auto simp: handle_slice_click_def Let_def)

lemma click_inside_eq:
  "button event = LEFT \<Longrightarrow> inaxes event = Some f \<Longrightarrow>
   handle_slice_click C event a = toggle_updating_state (click_body C event f a)"
  by (simp add: handle_slice_click_def click_body_def)

lemma issued_click:
  "button event = LEFT \<Longrightarrow> inaxes event = Some f \<Longrightarrow>
   issued a (handle_slice_click C event a) = issued a (click_body C event f a)"
  by (simp add: click_inside_eq issued_def)

lemma click_body_ok:
  assumes R: "renderers_keep C Q" and CB: "callbacks_keep C Q"
    and Q: "Q ((state a)\<lparr>updating := \<not> updating (state a)\<rparr>)"
    and P1: "\<And>c s. Q s \<Longrightarrow> c \<noteq> PlotEvoked \<Longrightarrow> P (c, s)"
    and P2: "\<And>s. Q s \<Longrightarrow> dipole_defined_and_distinct s \<Longrightarrow> P (PlotEvoked, s)"
  shows "step_ok P Q a (click_body C event f a)"
proof -
  define a1 where "a1 = toggle_updating_state (a\<lparr>widget := (widget a)\<lparr>output_widget := []\<rparr>\<rparr>)"
  have 1: "step_ok P Q a a1"
    using Q by (simp add: a1_def step_ok_def extends_refl)
  have 2: "step_ok P Q a1 (dispatch_click C f (xdata event) (ydata event) a1)" if q: "Q (state a1)"
    using R _ _ _ q
  proof (rule dispatch_ok)
    show "\<And>c. c \<noteq> PlotEvoked \<Longrightarrow> P (c, state a1)" using q P1 by blast
  qed (use CB P1 in \<open>auto simp: callbacks_keep_def\<close>)
  have 3: "step_ok P Q a2 (evaluate_field_if_ready C a2)" if "Q (state a2)" for a2
    using R that P2 by (rule evaluate_ok)
  show ?thesis
    unfolding click_body_def a1_def [symmetric]
    by (rule step_ok_trans [OF step_ok_trans [OF 1 2] 3])
qed

lemma amp_eq:
  "handle_amp_change C new a =
    (toggle_updating_state (amp_body C new a))
      \<lparr>widget := (widget (toggle_updating_state (amp_body C new a)))
         \<lparr>amplitude_slider_disabled := False\<rparr>\<rparr>"
  by (simp add: handle_amp_change_def amp_body_def Let_def)

lemma amp_body_ok:
  assumes R: "renderers_keep C Q"
    and Q: "Q ((state a)\<lparr>updating := \<not> updating (state a),
                dipole_amplitude := float_mul (binary64 (real_of_int new)) lit_1e_9\<rparr>)"
    and P2: "\<And>s. Q s \<Longrightarrow> dipole_defined_and_distinct s \<Longrightarrow> P (PlotEvoked, s)"
  shows "step_ok P Q a (amp_body C new a)"
proof -
  define a3 where "a3 = (let a1 = toggle_updating_state a;
         a2 = a1\<lparr>widget := (widget a1)\<lparr>amplitude_slider_disabled := True\<rparr>\<rparr>
     in a2\<lparr>state := (state a2)\<lparr>dipole_amplitude := float_mul (binary64 (real_of_int new)) lit_1e_9\<rparr>\<rparr>)"
  have 1: "step_ok P Q a a3"
    using Q by (simp add: a3_def step_ok_def extends_refl Let_def)
  have 3: "step_ok P Q a3 (evaluate_field_if_ready C a3)" if "Q (state a3)"
    using R that P2 by (rule evaluate_ok)
  have "amp_body C new a = evaluate_field_if_ready C a3"
    by (simp add: amp_body_def a3_def Let_def)
  with step_ok_trans [OF 1 3] show ?thesis by simp
qed

lemma issued_amp:
  "issued a (handle_amp_change C new a) =
     (if dipole_defined_and_distinct (state a)
      then [(PlotEvoked, (state a)\<lparr>updating := \<not> updating (state a),
                dipole_amplitude := float_mul (binary64 (real_of_int new)) lit_1e_9\<rparr>)] else [])"
  by (simp add: amp_eq issued_def amp_body_def Let_def evaluate_field_if_ready_def)

lemma only_ready_click:
  assumes "(PlotEvoked, s) \<in> set (issued a (handle_slice_click C event a))"
  shows "dipole_defined_and_distinct s"
proof (cases "button event \<noteq> LEFT \<or> inaxes event = None")
  case True
  then have "issued a (handle_slice_click C event a) = []"
    using click_outside [OF True, of C a] by (simp add: issued_def)
  with assms show ?thesis by simp
next
  case False
  then obtain f where L: "button event = LEFT" "inaxes event = Some f" by auto
  have "step_ok (\<lambda>e. fst e = PlotEvoked \<longrightarrow> dipole_defined_and_distinct (snd e)) (\<lambda>_. True) a
     (click_body C event f a)"
    by (rule click_body_ok) (simp_all add: renderers_keep_True callbacks_keep_True)
  then have "extends (\<lambda>e. fst e = PlotEvoked \<longrightarrow> dipole_defined_and_distinct (snd e)) a
     (click_body C event f a)"
    by (simp add: step_ok_def)
  moreover have "issued a (handle_slice_click C event a) = issued a (click_body C event f a)"
    using L by (rule issued_click)
  ultimately show ?thesis
    using assms extends_issued by fastforce
qed

lemma only_ready_amp:
  assumes "(PlotEvoked, s) \<in> set (issued a (handle_amp_change C new a))"
  shows "dipole_defined_and_distinct s"
  using assms by (simp add: issued_amp split: if_splits)

lemma dispatch_no_eval:
  "extends (\<lambda>e. fst e \<noteq> PlotEvoked) a (dispatch_click C f x y a)"
proof -
  have "step_ok (\<lambda>e. fst e \<noteq> PlotEvoked) (\<lambda>_. True) a (dispatch_click C f x y a)"
    by (rule dispatch_ok [where ?Q0.0 = "\<lambda>_. True"])
       (simp_all add: renderers_keep_True ws_hoare_def wms_hoare_def)
  then show ?thesis by (simp add: step_ok_def)
qed

lemma count_click_body:
  "invocations PlotEvoked (issued a (click_body C event f a)) =
     (if dipole_defined_and_distinct (state_before_evaluation C event f a) then 1 else 0)"
proof -
  define a1 where "a1 = toggle_updating_state (a\<lparr>widget := (widget a)\<lparr>output_widget := []\<rparr>\<rparr>)"
  define a2 where "a2 = dispatch_click C f (xdata event) (ydata event) a1"
  have c1: "calls a1 = calls a" by (simp add: a1_def)
  have "extends (\<lambda>e. fst e \<noteq> PlotEvoked) a1 a2"
    unfolding a2_def by (rule dispatch_no_eval)
  then obtain cs where cs: "calls a2 = calls a @ cs" "\<forall>e\<in>set cs. fst e \<noteq> PlotEvoked"
    by (auto simp: extends_def c1)
  have 0: "invocations PlotEvoked cs = 0"
    using cs(2) by (auto simp: invocations_def)
  have "calls (evaluate_field_if_ready C a2) =
      calls a @ cs @ (if dipole_defined_and_distinct (state a2) then [(PlotEvoked, state a2)] else [])"
    by (simp add: evaluate_field_if_ready_def cs(1))
  then have "issued a (evaluate_field_if_ready C a2) =
      cs @ (if dipole_defined_and_distinct (state a2) then [(PlotEvoked, state a2)] else [])"
    by (simp add: issued_def)
  moreover have "click_body C event f a = evaluate_field_if_ready C a2"
    by (simp add: click_body_def a2_def a1_def)
  moreover have "state_before_evaluation C event f a = state a2"
    by (simp add: state_before_evaluation_def a2_def a1_def)
  ultimately show ?thesis
    using 0 by (simp add: invocations_def)
qed

lemma count_amp:
  "invocations PlotEvoked (issued a (handle_amp_change C new a)) =
     (if dipole_defined_and_distinct (state a) then 1 else 0)"
  by (simp add: issued_amp invocations_def)

subsection \<open>The floats the handlers compute\<close>

lemmas binary64_eval = binary64_def binary64_pos_def scale_up.simps scale_down.simps
  round_half_even_def pow2_def Let_def

text \<open>
  \<^verbatim>\<open>50e-9\<close> is \<^verbatim>\<open>0x1.ad7f29abcaf48p-25\<close> and \<^verbatim>\<open>1e-9\<close> is \<^verbatim>\<open>0x1.12e0be826d695p-30\<close>;
  \<^verbatim>\<open>1e9\<close> is exact.
\<close>

lemma default_amplitude: "binary64 (50 / 10 ^ 9) = 7555786372591432 / 2 ^ 77"
  by (simp add: binary64_eval)

lemma lit_1e_9_value: "lit_1e_9 = 4835703278458517 / 2 ^ 82"
  by (simp add: lit_1e_9_def binary64_eval)

lemma lit_1e9_value: "lit_1e9 = 10 ^ 9"
  by (simp add: lit_1e9_def binary64_eval)

text \<open>\<^verbatim>\<open>50 * 1e-9\<close> is \<^verbatim>\<open>0x1.ad7f29abcaf49p-25\<close>, the double next above \<^verbatim>\<open>50e-9\<close>.\<close>

lemma slider_amplitude_50: "float_mul (binary64 50) lit_1e_9 = 7555786372591433 / 2 ^ 77"
  by (simp add: float_mul_def lit_1e_9_value) (simp add: binary64_eval)

lemma slider_amplitude_differs: "float_mul (binary64 50) lit_1e_9 \<noteq> binary64 (50 / 10 ^ 9)"
  by (simp only: slider_amplitude_50 default_amplitude) simp

text \<open>\<^verbatim>\<open>int(50e-9 * 1e9)\<close> is 50, and \<^verbatim>\<open>int(60e-9 * 1e9)\<close> is 59.\<close>

lemma default_in_nAm: "py_int (float_mul (binary64 (50 / 10 ^ 9)) lit_1e9) = 50"
  by (simp only: default_amplitude lit_1e9_value float_mul_def)
     (simp add: binary64_eval py_int_def)

lemma sixty_in_nAm: "py_int (float_mul (binary64 (60 / 10 ^ 9)) lit_1e9) = 59"
  by (simp add: float_mul_def lit_1e9_value) (simp add: binary64_eval py_int_def)

lemma amplitude_init_state: "dipole_amplitude init_state = binary64 (50 / 10 ^ 9)"
  unfolding init_state_def by (simp only: interaction_state.simps)

subsection \<open>The reset handler\<close>

lemma reset_contract_markers:
  assumes "reset_contract C"
  shows "markers_dipole_pos (fst (snd (remove_dipole_pos_markers C t))) = unset_handles"
    and "fst (snd (remove_dipole_ori_markers C t)) = (fst (snd t))\<lparr>markers_dipole_ori := unset_handles\<rparr>"
  using assms by (cases t; simp add: reset_contract_def)+

lemma reset_contract_slider:
  assumes "reset_contract C"
  shows "amplitude_slider_value (remove_dipole_arrows C w) = amplitude_slider_value w"
    and "amplitude_slider_value (fst (remove_dipole_pos_markers C t)) =
           amplitude_slider_value (fst t)"
    and "amplitude_slider_value (fst (remove_dipole_ori_markers C t)) =
           amplitude_slider_value (fst t)"
    and "amplitude_slider_value (fst (plot_slice C axis pos u)) = amplitude_slider_value (fst u)"
    and "amplitude_slider_value (reset_topomaps C w) = amplitude_slider_value w"
    and "amplitude_slider_value (enable_crosshair_cursor C w) = amplitude_slider_value w"
  using assms by (cases t; cases u; simp add: reset_contract_def)+

lemma amp_not_ready:
  assumes "\<not> dipole_defined_and_distinct (state a)"
  shows "state (handle_amp_change C new a) =
           (state a)\<lparr>dipole_amplitude := float_mul (binary64 (real_of_int new)) lit_1e_9\<rparr>"
    and "calls (handle_amp_change C new a) = calls a"
    and "markers (handle_amp_change C new a) = markers a"
    and "amplitude_slider_value (widget (handle_amp_change C new a)) =
           amplitude_slider_value (widget a)"
  using assms
  by (simp_all add: handle_amp_change_def Let_def evaluate_field_if_ready_def)

lemma assign_on_init:
  assumes "state a = init_state"
  shows "state (assign_amplitude_slider C (float_mul (dipole_amplitude (state a)) lit_1e9) a) =
           (if amplitude_slider_value (widget a) = 50 then init_state
            else init_state\<lparr>dipole_amplitude := float_mul (binary64 50) lit_1e_9\<rparr>)"
    and "calls (assign_amplitude_slider C (float_mul (dipole_amplitude (state a)) lit_1e9) a) =
           calls a"
    and "markers (assign_amplitude_slider C (float_mul (dipole_amplitude (state a)) lit_1e9) a) =
           markers a"
    and "amplitude_slider_value
           (widget (assign_amplitude_slider C (float_mul (dipole_amplitude (state a)) lit_1e9) a)) =
           50"
proof -
  have "py_int (float_mul (dipole_amplitude (state a)) lit_1e9) = 50"
    by (simp only: assms amplitude_init_state default_in_nAm)
  then have v: "min (max (py_int (float_mul (dipole_amplitude (state a)) lit_1e9)) 5) 100 = 50"
    by simp
  let ?a = "a\<lparr>widget := (widget a)\<lparr>amplitude_slider_value := 50\<rparr>\<rparr>"
  have n: "\<not> dipole_defined_and_distinct (state ?a)"
    using not_ready_init by (simp add: assms)
  note h = amp_not_ready [OF n, of C 50]
  show "state (assign_amplitude_slider C (float_mul (dipole_amplitude (state a)) lit_1e9) a) =
           (if amplitude_slider_value (widget a) = 50 then init_state
            else init_state\<lparr>dipole_amplitude := float_mul (binary64 50) lit_1e_9\<rparr>)"
    and "calls (assign_amplitude_slider C (float_mul (dipole_amplitude (state a)) lit_1e9) a) =
           calls a"
    and "markers (assign_amplitude_slider C (float_mul (dipole_amplitude (state a)) lit_1e9) a) =
           markers a"
    and "amplitude_slider_value
           (widget (assign_amplitude_slider C (float_mul (dipole_amplitude (state a)) lit_1e9) a)) =
           50"
    unfolding assign_amplitude_slider_def v Let_def
    using assms by (simp_all add: h)
qed

lemma plot_slice_all_on_init:
  assumes P: "\<forall>axis pos. ws_hoare (\<lambda>s. s = init_state) (plot_slice C axis pos) (\<lambda>s. s = init_state)"
    and S: "\<And>axis pos u. amplitude_slider_value (fst (plot_slice C axis pos u)) =
        amplitude_slider_value (fst u)"
    and "state a = init_state"
  shows "state (App_plot_slice C all_axes a) = init_state"
    and "markers (App_plot_slice C all_axes a) = markers a"
    and "calls (App_plot_slice C all_axes a) =
       calls a @ [(PlotSlice X_axis, init_state), (PlotSlice Y_axis, init_state),
                  (PlotSlice Z_axis, init_state)]"
    and "amplitude_slider_value (widget (App_plot_slice C all_axes a)) =
       amplitude_slider_value (widget a)"
proof -
  have k: "snd (plot_slice C axis pos (w, init_state)) = init_state" for axis pos w
    using P by (simp add: ws_hoare_def)
  show "state (App_plot_slice C all_axes a) = init_state"
    and "markers (App_plot_slice C all_axes a) = markers a"
    and "calls (App_plot_slice C all_axes a) =
       calls a @ [(PlotSlice X_axis, init_state), (PlotSlice Y_axis, init_state),
                  (PlotSlice Z_axis, init_state)]"
    and "amplitude_slider_value (widget (App_plot_slice C all_axes a)) =
       amplitude_slider_value (widget a)"
    using assms(3) by (simp_all add: all_axes_def k S)
qed

text \<open>
  What the reset handler leaves, for helpers that meet \<open>reset_contract\<close>: the default
  state when the slider showed 50; otherwise the assignment of line 290 runs
  \<^verbatim>\<open>_handle_amp_change\<close>, which writes \<^verbatim>\<open>50 * 1e-9\<close> over the fresh amplitude.
\<close>

lemma reset_run:
  assumes "reset_contract C"
  shows "state (handle_reset_button_click C a) =
       (if amplitude_slider_value (widget a) = 50 then init_state
        else init_state\<lparr>dipole_amplitude := float_mul (binary64 50) lit_1e_9\<rparr>)"
    and "markers (handle_reset_button_click C a) = init_markers"
    and "amplitude_slider_value (widget (handle_reset_button_click C a)) = 50"
    and "issued a (handle_reset_button_click C a) =
       [(RemoveDipoleArrows, state a), (RemoveDipolePosMarkers, state a),
        (RemoveDipoleOriMarkers,
           snd (snd (remove_dipole_pos_markers C
             (remove_dipole_arrows C (widget a), markers a, state a)))),
        (PlotSlice X_axis, init_state), (PlotSlice Y_axis, init_state),
        (PlotSlice Z_axis, init_state), (ResetTopomaps, init_state),
        (EnableCrosshairCursor,
           if amplitude_slider_value (widget a) = 50 then init_state
           else init_state\<lparr>dipole_amplitude := float_mul (binary64 50) lit_1e_9\<rparr>)]"
proof -
  define a3 where "a3 =
     call_wms RemoveDipoleOriMarkers (remove_dipole_ori_markers C)
       (call_wms RemoveDipolePosMarkers (remove_dipole_pos_markers C)
         (call_w RemoveDipoleArrows (remove_dipole_arrows C) a))"
  define a4 where "a4 = a3\<lparr>state := init_state\<rparr>"
  define a5 where "a5 = App_plot_slice C all_axes a4"
  define a8 where "a8 = (let a6 = call_w ResetTopomaps (reset_topomaps C) a5;
         a7 = a6\<lparr>widget := (widget a6)\<lparr>label_dipole_pos := ''Not set''\<rparr>\<rparr>
         in a7\<lparr>widget := (widget a7)\<lparr>label_dipole_ori := ''Not set''\<rparr>\<rparr>)"
  define a9 where "a9 = assign_amplitude_slider C (float_mul (dipole_amplitude (state a8)) lit_1e9) a8"
  note sl = reset_contract_slider [OF assms]
  have eq: "handle_reset_button_click C a = App_enable_crosshair_cursor C a9"
    by (simp add: handle_reset_button_click_def Let_def a3_def a4_def a5_def a8_def a9_def)
  have m3: "markers a3 = init_markers"
    by (simp add: a3_def reset_contract_markers [OF assms] init_markers_def unset_handles_def)
  have w3: "amplitude_slider_value (widget a3) = amplitude_slider_value (widget a)"
    by (simp add: a3_def sl)
  have c3: "calls a3 = calls a @
       [(RemoveDipoleArrows, state a), (RemoveDipolePosMarkers, state a),
        (RemoveDipoleOriMarkers,
           snd (snd (remove_dipole_pos_markers C
             (remove_dipole_arrows C (widget a), markers a, state a))))]"
    by (simp add: a3_def)
  have s4: "state a4 = init_state" "markers a4 = init_markers" "calls a4 = calls a3"
    "amplitude_slider_value (widget a4) = amplitude_slider_value (widget a)"
    by (simp_all add: a4_def m3 w3)
  from assms have P: "\<forall>axis pos.
      ws_hoare (\<lambda>s. s = init_state) (plot_slice C axis pos) (\<lambda>s. s = init_state)"
    by (simp add: reset_contract_def)
  note s5 = plot_slice_all_on_init [OF P sl(4) s4(1), folded a5_def]
  have s8: "state a8 = init_state" "markers a8 = init_markers"
    "calls a8 = calls a5 @ [(ResetTopomaps, init_state)]"
    "amplitude_slider_value (widget a8) = amplitude_slider_value (widget a)"
    by (simp_all add: a8_def Let_def s5 s4 sl)
  note s9 = assign_on_init [OF s8(1), of C, folded a9_def]
  show "state (handle_reset_button_click C a) =
       (if amplitude_slider_value (widget a) = 50 then init_state
        else init_state\<lparr>dipole_amplitude := float_mul (binary64 50) lit_1e_9\<rparr>)"
    by (simp add: eq App_enable_crosshair_cursor_def s9 s8)
  show "markers (handle_reset_button_click C a) = init_markers"
    by (simp add: eq App_enable_crosshair_cursor_def s9 s8)
  show "amplitude_slider_value (widget (handle_reset_button_click C a)) = 50"
    by (simp add: eq App_enable_crosshair_cursor_def sl s9(4))
  have "calls (App_enable_crosshair_cursor C a9) = calls a @
       [(RemoveDipoleArrows, state a), (RemoveDipolePosMarkers, state a),
        (RemoveDipoleOriMarkers,
           snd (snd (remove_dipole_pos_markers C
             (remove_dipole_arrows C (widget a), markers a, state a)))),
        (PlotSlice X_axis, init_state), (PlotSlice Y_axis, init_state),
        (PlotSlice Z_axis, init_state), (ResetTopomaps, init_state),
        (EnableCrosshairCursor,
           if amplitude_slider_value (widget a) = 50 then init_state
           else init_state\<lparr>dipole_amplitude := float_mul (binary64 50) lit_1e_9\<rparr>)]"
    by (simp add: App_enable_crosshair_cursor_def s9 s8 s5 s4 c3)
  then show "issued a (handle_reset_button_click C a) =
       [(RemoveDipoleArrows, state a), (RemoveDipolePosMarkers, state a),
        (RemoveDipoleOriMarkers,
           snd (snd (remove_dipole_pos_markers C
             (remove_dipole_arrows C (widget a), markers a, state a)))),
        (PlotSlice X_axis, init_state), (PlotSlice Y_axis, init_state),
        (PlotSlice Z_axis, init_state), (ResetTopomaps, init_state),
        (EnableCrosshairCursor,
           if amplitude_slider_value (widget a) = 50 then init_state
           else init_state\<lparr>dipole_amplitude := float_mul (binary64 50) lit_1e_9\<rparr>)]"
    by (simp add: eq issued_def)
qed

subsection \<open>The helpers of the specification meet what is assumed of them\<close>

lemmas spec_defs = spec_collab_def spec_get_axis_names_from_slice_def
  spec_handle_click_in_slice_browser_mode_def spec_handle_click_in_set_dipole_pos_mode_def
  spec_handle_click_in_set_dipole_ori_mode_def spec_plot_dipole_pos_marker_def
  spec_plot_dipole_ori_marker_def spec_remove_dipole_pos_markers_def
  spec_remove_dipole_ori_markers_def

lemmas init_defs = init_app_def init_state_def init_widget_def init_markers_def

lemma spec_renderers_keep: "renderers_keep spec_collab Q"
  by (simp add: renderers_keep_def ws_hoare_def wms_hoare_def spec_defs)

lemma spec_callbacks_keep_updating: "callbacks_keep spec_collab updating"
  by (simp add: callbacks_keep_def ws_hoare_def wms_hoare_def spec_defs browse_to_def Let_def)

lemma spec_reset_contract: "reset_contract spec_collab"
  by (simp add: reset_contract_def ws_hoare_def spec_defs)

lemma spec_browse_contract: "browse_contract spec_collab"
proof -
  have 1: "fst (get_axis_names_from_slice spec_collab v) \<noteq> v \<and>
        snd (get_axis_names_from_slice spec_collab v) \<noteq> v" for v
    by (cases v) (simp_all add: spec_defs)
  have 2: "wms_hoare (\<lambda>s. s = s0) (handle_click_in_slice_browser_mode spec_collab x y x_idx y_idx)
          (\<lambda>s'. same_dipole_fields s0 s' \<and> same_off_plane axis s0 s')"
    if "axis \<noteq> x_idx \<and> axis \<noteq> y_idx" for x y x_idx y_idx s0 axis
    using that
    by (cases axis; cases x_idx; cases y_idx)
       (simp_all add: wms_hoare_def spec_defs browse_to_def Let_def same_dipole_fields_def
          same_off_plane_def)
  show ?thesis
    unfolding browse_contract_def using 1 2 spec_renderers_keep by blast
qed

lemma spec_dispatch_state:
  "state (dispatch_click spec_collab f x y a) = spec_click_state (fig (widget a)) f x y (state a)"
proof -
  let ?t = "spec_click_state (fig (widget a)) f x y (state a)"
  have "step_ok (\<lambda>_. True) (\<lambda>s. s = ?t) a (dispatch_click spec_collab f x y a)"
    using spec_renderers_keep
  proof (rule dispatch_ok [where ?Q0.0 = "\<lambda>s. s = state a"])
    show "state a = state a" ..
  qed (simp_all add: wms_hoare_def ws_hoare_def spec_click_state_def Let_def spec_defs)
  then show ?thesis by (simp add: step_ok_def)
qed

lemma spec_state_before_evaluation:
  "state_before_evaluation spec_collab event f a =
     spec_click_state (fig (widget a)) f (xdata event) (ydata event)
       ((state a)\<lparr>updating := \<not> updating (state a)\<rparr>)"
  by (simp add: state_before_evaluation_def spec_dispatch_state)

text \<open>
  Under these helpers a click keeps each dipole dictionary "3 scalars or unset": the
  state that reaches the test of line 233 is well-formed when the handler was entered in
  a well-formed one.
\<close>

lemma spec_click_wellformed:
  "dipole_wellformed s \<Longrightarrow> dipole_wellformed (spec_click_state figs f x y s)"
  by (cases "clicked_axis figs f"; cases "mode s")
     (auto simp: spec_click_state_def Let_def spec_get_axis_names_from_slice_def browse_to_def
        resolve_3d_def dipole_wellformed_def fully_defined_def unset_def)

lemma spec_wellformed_before_evaluation:
  "dipole_wellformed (state a) \<Longrightarrow>
   dipole_wellformed (state_before_evaluation spec_collab event f a)"
  unfolding spec_state_before_evaluation
  by (rule spec_click_wellformed) (simp add: dipole_wellformed_def)

subsection \<open>The example inputs\<close>

lemma placed_click_ready:
  "ready (state_before_evaluation spec_collab (click_at 2 4 5) 2 placed_app)"
  by (simp only: spec_state_before_evaluation)
     (simp add: spec_click_state_def placed_app_def click_at_def init_defs clicked_axis_def
        spec_defs resolve_3d_def ready_def fully_defined_def Let_def)

lemma init_click_unset:
  "unset_or_equal (state_before_evaluation spec_collab (click_at 2 4 5) 2 init_app)"
  by (simp only: spec_state_before_evaluation)
     (simp add: spec_click_state_def click_at_def init_defs clicked_axis_def spec_defs
        browse_to_def unset_or_equal_def unset_def Let_def)

lemma click_at_simps [simp]:
  "button (click_at f x y) = LEFT" "inaxes (click_at f x y) = Some f"
  "xdata (click_at f x y) = x" "ydata (click_at f x y) = y"
  by (simp_all add: click_at_def)

lemma ready_app_ready: "ready (state ready_app)"
  by (simp add: ready_app_def init_defs ready_def fully_defined_def)

lemma init_app_unset: "unset_or_equal (state init_app)"
  by (simp add: init_defs unset_or_equal_def unset_def)

lemma init_slider: "amplitude_slider_value (widget init_app) = 50"
  by (simp only: init_app_def app.simps init_widget_def widget.simps amplitude_init_state
      default_in_nAm)

lemma moved_slider: "amplitude_slider_value (widget moved_app) = 75"
proof -
  let ?a = "init_app\<lparr>widget := (widget init_app)\<lparr>amplitude_slider_value := 75\<rparr>\<rparr>"
  have n: "\<not> dipole_defined_and_distinct (state ?a)"
    using not_ready_init by (simp add: init_app_def)
  have e: "moved_app = handle_amp_change spec_collab 75 ?a"
    by (simp add: moved_app_def assign_amplitude_slider_def init_slider py_int_def Let_def)
  show ?thesis
    unfolding e amp_not_ready(4) [OF n] by simp
qed

section \<open>The claims\<close>

text \<open>
  Claim C1. Field evaluation (the call of \<^verbatim>\<open>plot_evoked\<close>) occurs only when both
  \<^verbatim>\<open>dipole_pos\<close> and \<^verbatim>\<open>dipole_ori\<close> are fully defined and the two are not
  coordinate-wise identical; in every state in which either is unset or the two are
  equal, neither the slice-click handler nor the amplitude handler invokes it.

  Every \<^verbatim>\<open>plot_evoked\<close> call that either handler logs was made in a state \<open>s\<close> that
  passed the test of lines 233-235 and 263-265, which reads the \<^verbatim>\<open>'x'\<close> entries and
  compares the dictionaries; on the states of the data model (each dipole dictionary
  three scalars or unset) that is readiness. Conversely the amplitude handler entered
  in, and the click handler reaching its test in, a state where one of the two is unset
  or they are equal makes no such call.
\<close>

theorem evaluation_only_when_ready:
  "((PlotEvoked, s) \<in> set (issued a (handle_slice_click C event a)) \<or>
    (PlotEvoked, s) \<in> set (issued a (handle_amp_change C new a))
      \<longrightarrow> dipole_defined_and_distinct s \<and> (dipole_wellformed s \<longrightarrow> ready s)) \<and>
   (unset_or_equal (state a) \<longrightarrow>
      invocations PlotEvoked (issued a (handle_amp_change C new a)) = 0) \<and>
   (button event = LEFT \<and> inaxes event = Some f \<and>
    unset_or_equal (state_before_evaluation C event f a) \<longrightarrow>
      invocations PlotEvoked (issued a (handle_slice_click C event a)) = 0) \<and>
   (button event \<noteq> LEFT \<or> inaxes event = None \<longrightarrow>
      invocations PlotEvoked (issued a (handle_slice_click C event a)) = 0)"
proof (intro conjI impI)
  assume "(PlotEvoked, s) \<in> set (issued a (handle_slice_click C event a)) \<or>
    (PlotEvoked, s) \<in> set (issued a (handle_amp_change C new a))"
  then show d: "dipole_defined_and_distinct s"
    using only_ready_click only_ready_amp by blast
  assume "dipole_wellformed s"
  with d show "ready s" by (rule defined_wellformed_ready)
next
  assume "unset_or_equal (state a)"
  then show "invocations PlotEvoked (issued a (handle_amp_change C new a)) = 0"
    by (simp add: count_amp unset_or_equal_not_defined)
next
  assume "button event = LEFT \<and> inaxes event = Some f \<and>
    unset_or_equal (state_before_evaluation C event f a)"
  then show "invocations PlotEvoked (issued a (handle_slice_click C event a)) = 0"
    by (simp add: issued_click count_click_body unset_or_equal_not_defined)
next
  assume "button event \<noteq> LEFT \<or> inaxes event = None"
  from click_outside [OF this, of C a]
  show "invocations PlotEvoked (issued a (handle_slice_click C event a)) = 0"
    by (simp add: issued_def invocations_def)
qed

theorem evaluation_only_when_ready_witness:
  "ready ((state ready_app)\<lparr>updating := True, dipole_amplitude := float_mul (binary64 75) lit_1e_9\<rparr>) \<and>
   invocations PlotEvoked (issued init_app (handle_amp_change spec_collab 75 init_app)) = 0 \<and>
   invocations PlotEvoked
     (issued init_app (handle_slice_click spec_collab (click_at 2 4 5) init_app)) = 0 \<and>
   invocations PlotEvoked
     (issued ready_app (handle_slice_click spec_collab
        \<lparr>button = RIGHT, inaxes = Some 2, xdata = 4, ydata = 5\<rparr> ready_app)) = 0"
proof -
  let ?s = "(state ready_app)\<lparr>updating := True, dipole_amplitude := float_mul (binary64 75) lit_1e_9\<rparr>"
  have d: "dipole_defined_and_distinct (state ready_app)"
    by (rule ready_imp_defined_and_distinct [OF ready_app_ready])
  have u: "\<not> updating (state ready_app)"
    by (simp add: ready_app_def init_defs)
  have m: "(PlotEvoked, ?s) \<in> set (issued ready_app (handle_amp_change spec_collab 75 ready_app))"
    using d u by (simp add: issued_amp)
  have w: "dipole_wellformed ?s"
    by (simp add: ready_app_def init_defs dipole_wellformed_def fully_defined_def)
  from evaluation_only_when_ready
    [where s = ?s and a = ready_app and C = spec_collab and new = 75] m w
  have 1: "ready ?s" by blast
  from evaluation_only_when_ready
    [where a = init_app and C = spec_collab and event = "click_at 2 4 5" and f = 2 and new = 75]
    init_app_unset init_click_unset
  have 2: "invocations PlotEvoked (issued init_app (handle_amp_change spec_collab 75 init_app)) = 0"
    and 3: "invocations PlotEvoked
     (issued init_app (handle_slice_click spec_collab (click_at 2 4 5) init_app)) = 0"
    by simp_all
  from evaluation_only_when_ready
    [where a = ready_app and C = spec_collab
       and event = "\<lparr>button = RIGHT, inaxes = Some 2, xdata = 4, ydata = 5\<rparr>"]
  have 4: "invocations PlotEvoked
     (issued ready_app (handle_slice_click spec_collab
        \<lparr>button = RIGHT, inaxes = Some 2, xdata = 4, ydata = 5\<rparr> ready_app)) = 0"
    by simp
  from 1 2 3 4 show ?thesis by simp
qed

text \<open>
  Claim C2. In every state in which \<^verbatim>\<open>dipole_pos\<close> and \<^verbatim>\<open>dipole_ori\<close> are both set and
  unequal, each single state-mutating event (a left click handled by the slice-click
  handler, one amplitude change handled by the amplitude handler) invokes the field
  evaluation exactly once.

  The specification checks readiness "after any state-mutating interaction": for the
  click it is the state in which the handler reaches its test, after the callback of the
  current mode has rewritten the state; for the amplitude change the state of entry,
  whose dipole the handler does not write.
\<close>

theorem evaluation_exactly_once:
  "(ready (state a) \<longrightarrow> invocations PlotEvoked (issued a (handle_amp_change C new a)) = 1) \<and>
   (button event = LEFT \<and> inaxes event = Some f \<and> ready (state_before_evaluation C event f a)
      \<longrightarrow> invocations PlotEvoked (issued a (handle_slice_click C event a)) = 1)"
  by (simp add: issued_click count_click_body count_amp ready_imp_defined_and_distinct)

theorem evaluation_exactly_once_witness:
  "invocations PlotEvoked (issued ready_app (handle_amp_change spec_collab 75 ready_app)) = 1 \<and>
   invocations PlotEvoked
     (issued placed_app (handle_slice_click spec_collab (click_at 2 4 5) placed_app)) = 1"
  using evaluation_exactly_once [where a = ready_app and C = spec_collab and new = 75]
    evaluation_exactly_once
      [where a = placed_app and C = spec_collab and event = "click_at 2 4 5" and f = 2]
    ready_app_ready placed_click_ready
  by simp

text \<open>
  Claim C3 as stated asks the busy flag to be true throughout every handler (slice
  click, amplitude change, mode change, reset) and false after. The reset handler never
  sets it: every helper it calls on the freshly built controller sees the flag false.
\<close>

theorem reset_runs_with_flag_down:
  "map (apsnd updating) (issued init_app (handle_reset_button_click spec_collab init_app)) =
     [(RemoveDipoleArrows, False), (RemoveDipolePosMarkers, False),
      (RemoveDipoleOriMarkers, False), (PlotSlice X_axis, False), (PlotSlice Y_axis, False),
      (PlotSlice Z_axis, False), (ResetTopomaps, False), (EnableCrosshairCursor, False)]"
  using reset_run(4) [OF spec_reset_contract, of init_app]
  by (simp add: init_slider) (simp add: spec_defs init_defs)

text \<open>
  Claim C3, amended to the two handlers that may evaluate the field. Entered with the
  flag down, and with helpers that leave a raised flag raised, the slice-click handler
  and the amplitude handler make every helper call with the flag up, and return with the
  flag down and (but for a click that is not a left click, which touches neither) the
  label reading \<^verbatim>\<open>Ready.\<close>.
\<close>

theorem flag_up_during_click_and_amplitude:
  assumes R: "renderers_keep C updating" and CB: "callbacks_keep C updating"
    and idle: "\<not> updating (state a)"
  shows "(\<forall>e \<in> set (issued a (handle_slice_click C event a)). updating (snd e)) \<and>
     \<not> updating (state (handle_slice_click C event a)) \<and>
     (button event = LEFT \<longrightarrow> label_updating (widget (handle_slice_click C event a)) = ready_text) \<and>
     (\<forall>e \<in> set (issued a (handle_amp_change C new a)). updating (snd e)) \<and>
     \<not> updating (state (handle_amp_change C new a)) \<and>
     label_updating (widget (handle_amp_change C new a)) = ready_text"
proof -
  let ?P = "\<lambda>e :: call \<times> interaction_state. updating (snd e)"
  have amp: "step_ok ?P updating a (amp_body C new a)"
    using R by (rule amp_body_ok) (simp_all add: idle)
  have click: "step_ok ?P updating a (click_body C event f a)" for f
    using R CB by (rule click_body_ok) (simp_all add: idle)
  have 1: "(\<forall>e \<in> set (issued a (handle_slice_click C event a)). updating (snd e)) \<and>
     \<not> updating (state (handle_slice_click C event a)) \<and>
     (button event = LEFT \<longrightarrow> label_updating (widget (handle_slice_click C event a)) = ready_text)"
  proof (cases "button event \<noteq> LEFT \<or> inaxes event = None")
    case True
    then show ?thesis
      using idle by (auto simp: handle_slice_click_def Let_def issued_def)
  next
    case False
    then obtain f where L: "button event = LEFT" "inaxes event = Some f" by auto
    have i: "issued a (handle_slice_click C event a) = issued a (click_body C event f a)"
      using L by (rule issued_click)
    have e: "handle_slice_click C event a = toggle_updating_state (click_body C event f a)"
      using L by (rule click_inside_eq)
    from click [of f] have "\<forall>e \<in> set (issued a (click_body C event f a)). updating (snd e)"
      and "updating (state (click_body C event f a))"
      by (auto simp: step_ok_def dest: extends_issued)
    then show ?thesis
      unfolding i by (simp add: e)
  qed
  have "issued a (handle_amp_change C new a) = issued a (amp_body C new a)"
    by (simp add: amp_eq issued_def)
  with amp have 2: "(\<forall>e \<in> set (issued a (handle_amp_change C new a)). updating (snd e)) \<and>
     \<not> updating (state (handle_amp_change C new a)) \<and>
     label_updating (widget (handle_amp_change C new a)) = ready_text"
    by (auto simp: amp_eq step_ok_def dest: extends_issued)
  from 1 2 show ?thesis by blast
qed

theorem flag_up_during_click_and_amplitude_witness:
  "renderers_keep spec_collab updating \<and> callbacks_keep spec_collab updating \<and>
   \<not> updating (state ready_app) \<and>
   map (apsnd updating) (issued ready_app (handle_amp_change spec_collab 75 ready_app)) =
     [(PlotEvoked, True)] \<and>
   \<not> updating (state (handle_amp_change spec_collab 75 ready_app)) \<and>
   \<not> updating (state (handle_slice_click spec_collab (click_at 2 4 5) ready_app)) \<and>
   label_updating (widget (handle_slice_click spec_collab (click_at 2 4 5) ready_app)) = ready_text"
proof -
  have u: "\<not> updating (state ready_app)"
    by (simp add: ready_app_def init_defs)
  have d: "dipole_defined_and_distinct (state ready_app)"
    by (rule ready_imp_defined_and_distinct [OF ready_app_ready])
  have i: "map (apsnd updating) (issued ready_app (handle_amp_change spec_collab 75 ready_app)) =
     [(PlotEvoked, True)]"
    using d u by (simp add: issued_amp)
  from flag_up_during_click_and_amplitude
    [OF spec_renderers_keep spec_callbacks_keep_updating u, of "click_at 2 4 5" 75]
    spec_renderers_keep [of updating] spec_callbacks_keep_updating u i
  show ?thesis by simp
qed

text \<open>
  Claim C4. The reset handler restores the interaction state to the exact default record
  of \<^verbatim>\<open>_init_state\<close> (crosshair at the origin, dipole position and orientation unset,
  amplitude 50 nAm, mode \<^verbatim>\<open>slice_browser\<close>, busy false), clears all dipole marker
  handles and arrows, resets the amplitude control to the default value, and triggers no
  field computation.

  The code does so when the slider shows 50 at the click, and misses it when the user
  has moved the slider: line 285 installs the default record, but the assignment to the
  slider in line 290 then changes the slider's value, which runs the observer
  \<^verbatim>\<open>_handle_amp_change\<close> on the fresh state, and that handler overwrites the amplitude
  \<^verbatim>\<open>50e-9\<close> with \<^verbatim>\<open>50 * 1e-9\<close>, the next double above it. After a reset from the
  controller whose slider was dragged to 75 the state is not the default record, though
  the markers are cleared, the slider shows 50 and no field is computed; from the initial
  controller the reset does restore the record.
\<close>

theorem reset_after_slider_move:
  "dipole_amplitude (state (handle_reset_button_click spec_collab moved_app)) =
     7555786372591433 / 2 ^ 77 \<and>
   dipole_amplitude init_state = 7555786372591432 / 2 ^ 77 \<and>
   state (handle_reset_button_click spec_collab moved_app) \<noteq> init_state \<and>
   state (handle_reset_button_click spec_collab moved_app) =
     init_state\<lparr>dipole_amplitude := float_mul (binary64 50) lit_1e_9\<rparr> \<and>
   markers (handle_reset_button_click spec_collab moved_app) = init_markers \<and>
   amplitude_slider_value (widget (handle_reset_button_click spec_collab moved_app)) = 50 \<and>
   invocations PlotEvoked (issued moved_app (handle_reset_button_click spec_collab moved_app)) = 0 \<and>
   state (handle_reset_button_click spec_collab init_app) = init_state"
proof -
  note r = reset_run [OF spec_reset_contract, of moved_app]
  have s: "state (handle_reset_button_click spec_collab moved_app) =
     init_state\<lparr>dipole_amplitude := float_mul (binary64 50) lit_1e_9\<rparr>"
    by (simp add: r(1) moved_slider)
  have a: "dipole_amplitude (state (handle_reset_button_click spec_collab moved_app)) =
     7555786372591433 / 2 ^ 77"
    by (simp add: s slider_amplitude_50)
  have d: "dipole_amplitude init_state = 7555786372591432 / 2 ^ 77"
    by (simp only: amplitude_init_state default_amplitude)
  have ne: "state (handle_reset_button_click spec_collab moved_app) \<noteq> init_state"
  proof
    assume "state (handle_reset_button_click spec_collab moved_app) = init_state"
    then have "dipole_amplitude (state (handle_reset_button_click spec_collab moved_app)) =
      dipole_amplitude init_state"
      by simp
    then show False
      unfolding a d by simp
  qed
  have i: "invocations PlotEvoked
      (issued moved_app (handle_reset_button_click spec_collab moved_app)) = 0"
    by (simp add: r(4) invocations_def)
  have z: "state (handle_reset_button_click spec_collab init_app) = init_state"
    by (simp add: reset_run(1) [OF spec_reset_contract] init_slider)
  from a d ne s r(2,3) i z show ?thesis by blast
qed

text \<open>
  Claim C5. For every left click inside the figure but outside any plotted axes
  (\<^verbatim>\<open>inaxes\<close> is \<^verbatim>\<open>None\<close>) the slice-click handler returns with no state mutation: the
  interaction state after it equals the state before, no markers are drawn and no field
  evaluation is invoked.
\<close>

theorem click_outside_axes_ignored:
  "button event = LEFT \<Longrightarrow> inaxes event = None \<Longrightarrow>
   state (handle_slice_click C event a) = state a \<and>
   markers (handle_slice_click C event a) = markers a \<and>
   issued a (handle_slice_click C event a) = []"
  by (simp add: handle_slice_click_def issued_def)

theorem click_outside_axes_ignored_witness:
  "state (handle_slice_click spec_collab
      \<lparr>button = LEFT, inaxes = None, xdata = 0, ydata = 0\<rparr> ready_app) = state ready_app \<and>
   markers (handle_slice_click spec_collab
      \<lparr>button = LEFT, inaxes = None, xdata = 0, ydata = 0\<rparr> ready_app) = markers ready_app \<and>
   issued ready_app (handle_slice_click spec_collab
      \<lparr>button = LEFT, inaxes = None, xdata = 0, ydata = 0\<rparr> ready_app) = []"
  using click_outside_axes_ignored
    [of "\<lparr>button = LEFT, inaxes = None, xdata = 0, ydata = 0\<rparr>" spec_collab ready_app]
  by simp

text \<open>
  Claim C6. For every left click handled in mode \<^verbatim>\<open>slice_browser\<close> the resulting
  interaction state differs from the input state only in the slice coordinates and
  crosshair entries of the clicked plane; in particular the dipole position, the dipole
  orientation, the amplitude and the mode are unchanged.

  What the browsing callback writes is decided in module \<^verbatim>\<open>callbacks\<close>, which is not
  among the sources: the theorem holds for every choice of helpers that meets
  \<open>browse_contract\<close>, the specification's account of them. The handler itself adds
  only its two toggles of the flag, which cancel. The entries of the axis of the
  clicked view, the one outside the clicked plane, are unchanged.
\<close>

theorem browsing_click_frame:
  assumes B: "browse_contract C"
    and L: "button event = LEFT" "inaxes event = Some f"
    and M: "mode (state a) = slice_browser"
  shows "same_dipole_fields (state a) (state (handle_slice_click C event a)) \<and>
     same_off_plane (clicked_axis (fig (widget a)) f) (state a)
       (state (handle_slice_click C event a))"
proof -
  define a1 where "a1 = toggle_updating_state (a\<lparr>widget := (widget a)\<lparr>output_widget := []\<rparr>\<rparr>)"
  define ax where "ax = clicked_axis (fig (widget a)) f"
  define Q where "Q = (\<lambda>s'. same_dipole_fields (state a1) s' \<and> same_off_plane ax (state a1) s')"
  have ax1: "clicked_axis (fig (widget a1)) f = ax"
    by (simp add: a1_def ax_def)
  have m1: "mode (state a1) = slice_browser"
    by (simp add: a1_def M)
  from B have R: "renderers_keep C Q"
    by (simp add: browse_contract_def Q_def)
  have 1: "step_ok (\<lambda>_. True) Q a1 (dispatch_click C f (xdata event) (ydata event) a1)"
    using R
  proof (rule dispatch_ok [where ?Q0.0 = "\<lambda>s. s = state a1"])
    show "wms_hoare (\<lambda>s. s = state a1)
       (handle_click_in_slice_browser_mode C (xdata event) (ydata event)
         (fst (get_axis_names_from_slice C (clicked_axis (fig (widget a1)) f)))
         (snd (get_axis_names_from_slice C (clicked_axis (fig (widget a1)) f)))) Q"
    proof -
      from B have "\<forall>v. fst (get_axis_names_from_slice C v) \<noteq> v \<and>
          snd (get_axis_names_from_slice C v) \<noteq> v"
        by (simp add: browse_contract_def)
      from this [rule_format, of ax]
      have g: "ax \<noteq> fst (get_axis_names_from_slice C ax) \<and>
          ax \<noteq> snd (get_axis_names_from_slice C ax)"
        by auto
      from B have "\<forall>x y x_idx y_idx s0 axis. axis \<noteq> x_idx \<and> axis \<noteq> y_idx \<longrightarrow>
        wms_hoare (\<lambda>s. s = s0) (handle_click_in_slice_browser_mode C x y x_idx y_idx)
          (\<lambda>s'. same_dipole_fields s0 s' \<and> same_off_plane axis s0 s')"
        by (simp add: browse_contract_def)
      from this [rule_format, OF g] show ?thesis
        by (simp add: ax1 Q_def)
    qed
  qed (simp_all add: m1)
  have 2: "step_ok (\<lambda>_. True) Q a2 (evaluate_field_if_ready C a2)" if "Q (state a2)" for a2
    using R that by (rule evaluate_ok) simp
  have "step_ok (\<lambda>_. True) Q a1 (click_body C event f a)"
    unfolding click_body_def a1_def [symmetric] by (rule step_ok_trans [OF 1 2])
  then have "Q (state (click_body C event f a))"
    by (simp add: step_ok_def)
  then show ?thesis
    unfolding click_inside_eq [OF L] ax_def [symmetric]
    by (simp add: Q_def a1_def same_dipole_fields_def same_off_plane_def)
qed

theorem browsing_click_frame_witness:
  "browse_contract spec_collab \<and> mode (state ready_app) = slice_browser \<and>
   same_dipole_fields (state ready_app)
     (state (handle_slice_click spec_collab (click_at 2 10 20) ready_app)) \<and>
   same_off_plane (clicked_axis (fig (widget ready_app)) 2) (state ready_app)
     (state (handle_slice_click spec_collab (click_at 2 10 20) ready_app))"
proof -
  have m: "mode (state ready_app) = slice_browser"
    by (simp add: ready_app_def init_defs)
  from browsing_click_frame [OF spec_browse_contract _ _ m, of "click_at 2 10 20" 2]
    spec_browse_contract m
  show ?thesis by simp
qed

text \<open>
  Claim C7. Mode switching via the selector is idempotent: for every state, applying
  the mode-change handler with the option of the already active mode leaves the whole
  interaction state (the mode included) unchanged; and so does applying it a second
  time with any option.
\<close>

theorem mode_selection_idempotent:
  "handle_view_mode_change (option_of_mode (mode (state a))) a = a \<and>
   handle_view_mode_change new_mode (handle_view_mode_change new_mode a) =
     handle_view_mode_change new_mode a"
  by (cases "mode (state a)")
     (simp_all add: handle_view_mode_change_def set_view_mode_def option_of_mode_def)

theorem mode_selection_idempotent_witness:
  "handle_view_mode_change ''Set Dipole Orientation'' placed_app = placed_app"
  using mode_selection_idempotent [of placed_app]
  by (simp add: option_of_mode_def placed_app_def init_defs)

text \<open>
  Claim C8. Mode transitions are unconditional: for every prior state and each of the
  three selector options the mode-change handler sets the mode to the corresponding
  mode, without reading or changing any other part of the controller.
\<close>

theorem mode_transition_unconditional:
  "handle_view_mode_change ''Slice Browser'' a = a\<lparr>state := (state a)\<lparr>mode := slice_browser\<rparr>\<rparr> \<and>
   handle_view_mode_change ''Set Dipole Origin'' a =
     a\<lparr>state := (state a)\<lparr>mode := set_dipole_pos\<rparr>\<rparr> \<and>
   handle_view_mode_change ''Set Dipole Orientation'' a =
     a\<lparr>state := (state a)\<lparr>mode := set_dipole_ori\<rparr>\<rparr>"
  by (simp add: handle_view_mode_change_def set_view_mode_def)

theorem mode_transition_unconditional_witness:
  "mode (state (handle_view_mode_change ''Set Dipole Origin'' init_app)) = set_dipole_pos \<and>
   dipole_pos (state (handle_view_mode_change ''Set Dipole Origin'' init_app)) =
     dipole_pos (state init_app)"
  using mode_transition_unconditional [of init_app]
  by simp

text \<open>
  Claim C9 as stated lets a click with another button than the left one have no effect
  at all. The handler is wrapped in
  \<^verbatim>\<open>@output_widget.capture(clear_output=True)\<close>, which empties the output widget before
  the body is entered: a right click on a controller that shows captured output does
  change it.
\<close>

theorem non_left_click_clears_output:
  "handle_slice_click spec_collab \<lparr>button = RIGHT, inaxes = Some 2, xdata = 1, ydata = 2\<rparr>
     logged_app \<noteq> logged_app"
proof
  assume "handle_slice_click spec_collab \<lparr>button = RIGHT, inaxes = Some 2, xdata = 1, ydata = 2\<rparr>
     logged_app = logged_app"
  then have "output_widget (widget (handle_slice_click spec_collab
      \<lparr>button = RIGHT, inaxes = Some 2, xdata = 1, ydata = 2\<rparr> logged_app)) =
    output_widget (widget logged_app)"
    by simp
  then show False
    by (simp add: handle_slice_click_def logged_app_def init_app_def)
qed

text \<open>
  Claim C9, amended. For every click whose button is not the left one the handler
  returns at once, and emptying the output widget is its only effect: the interaction
  state (the flag included), the label, every other control, the markers and the log of
  helper calls are as before.
\<close>

theorem non_left_click_ignored:
  "button event \<noteq> LEFT \<Longrightarrow>
   handle_slice_click C event a = a\<lparr>widget := (widget a)\<lparr>output_widget := []\<rparr>\<rparr> \<and>
   state (handle_slice_click C event a) = state a \<and>
   label_updating (widget (handle_slice_click C event a)) = label_updating (widget a) \<and>
   markers (handle_slice_click C event a) = markers a \<and>
   issued a (handle_slice_click C event a) = []"
  by (simp add: handle_slice_click_def issued_def)

theorem non_left_click_ignored_witness:
  "handle_slice_click spec_collab \<lparr>button = RIGHT, inaxes = Some 2, xdata = 1, ydata = 2\<rparr>
     ready_app = ready_app\<lparr>widget := (widget ready_app)\<lparr>output_widget := []\<rparr>\<rparr> \<and>
   state (handle_slice_click spec_collab \<lparr>button = RIGHT, inaxes = Some 2, xdata = 1, ydata = 2\<rparr>
     ready_app) = state ready_app"
  using non_left_click_ignored
    [of "\<lparr>button = RIGHT, inaxes = Some 2, xdata = 1, ydata = 2\<rparr>" spec_collab ready_app]
  by simp

text \<open>
  Claim C10. The toggle of the updating state keeps the invariant that the label reads
  \<^verbatim>\<open>Updating ...\<close> exactly when \<^verbatim>\<open>state['updating']\<close> is true and \<^verbatim>\<open>Ready.\<close> exactly
  when it is false, and it is an involution: applied twice it restores the flag and the
  label.

  The toggle establishes the invariant from any controller; two toggles restore the
  flag always, and the whole controller, the label included, where the label agreed
  with the flag.
\<close>

theorem toggle_label_invariant_involution:
  "label_consistent (toggle_updating_state a) \<and>
   updating (state (toggle_updating_state (toggle_updating_state a))) = updating (state a) \<and>
   (label_consistent a \<longrightarrow> toggle_updating_state (toggle_updating_state a) = a)"
proof -
  have 1: "label_consistent (toggle_updating_state a)"
    using texts_differ by (auto simp: label_consistent_def)
  have 2: "updating (state (toggle_updating_state (toggle_updating_state a))) = updating (state a)"
    by simp
  have 3: "toggle_updating_state (toggle_updating_state a) = a" if "label_consistent a"
  proof (rule app.equality)
    show "widget (toggle_updating_state (toggle_updating_state a)) = widget a"
      using that by (cases "updating (state a)") (auto simp: label_consistent_def)
  qed simp_all
  from 1 2 3 show ?thesis by blast
qed

theorem toggle_label_invariant_involution_witness:
  "label_consistent init_app \<and>
   toggle_updating_state (toggle_updating_state init_app) = init_app \<and>
   label_updating (widget (toggle_updating_state init_app)) = updating_text"
  using toggle_label_invariant_involution [of init_app]
  by (simp add: label_consistent_def init_defs updating_text_def ready_text_def)

end
